theory Spec2Isabelle
  imports Main "HOL-Library.AList"
begin

section \<open>Elicitation helpers (codex/utils/elicitation.ts)\<close>

text \<open>
  The decision tags of a permission result. The constructors carry the source's string
  literals as their names.
\<close>

datatype PermissionDecision =
    approved
  | approved_for_session
  | approved_execpolicy_amendment
  | denied
  | abort

text \<open>The optional payload \<^verbatim>\<open>execPolicyAmendment?: { command: string[] }\<close>.\<close>

record ExecPolicyAmendment =
  command :: "string list"

record PermissionResult =
  decision :: PermissionDecision
  execPolicyAmendment :: "ExecPolicyAmendment option"

text \<open>
  \<^verbatim>\<open>ReviewDecision\<close> is either one of the plain string tags, handed on as it is, or the
  object \<^verbatim>\<open>{ approved_execpolicy_amendment: { proposed_execpolicy_amendment: string[] } }\<close>.
\<close>

datatype ReviewDecision =
    Plain PermissionDecision
  | ExecpolicyAmendmentDecision "string list"

datatype ElicitationAction = accept | decline | cancel

datatype ElicitationResponseStyle = style_decision | style_both

text \<open>
  \<^verbatim>\<open>result.execPolicyAmendment?.command?.length\<close> used as a condition: truthy exactly when
  the payload is there and its command list has a positive length.
\<close>

definition command_length_truthy :: "ExecPolicyAmendment option \<Rightarrow> bool" where
  "command_length_truthy a = (case a of None \<Rightarrow> False | Some p \<Rightarrow> length (command p) \<noteq> 0)"

definition mapPermissionResultToDecision :: "PermissionResult \<Rightarrow> ReviewDecision" where
  "mapPermissionResultToDecision result =
     (if decision result = approved_execpolicy_amendment then
        (case execPolicyAmendment result of
           Some p \<Rightarrow>
             if length (command p) \<noteq> 0 then ExecpolicyAmendmentDecision (command p)
             else Plain approved
         | None \<Rightarrow> Plain approved)
      else Plain (decision result))"

definition isExecpolicyAmendmentDecision :: "ReviewDecision \<Rightarrow> bool" where
  "isExecpolicyAmendmentDecision d =
     (case d of ExecpolicyAmendmentDecision _ \<Rightarrow> True | Plain _ \<Rightarrow> False)"

definition mapDecisionToAction :: "ReviewDecision \<Rightarrow> ElicitationAction" where
  "mapDecisionToAction d =
     (if d = Plain approved \<or> d = Plain approved_for_session \<or> isExecpolicyAmendmentDecision d
      then accept
      else if d = Plain abort then cancel
      else decline)"

subsection \<open>Versions\<close>

text \<open>
  \<^verbatim>\<open>CodexVersionTarget\<close> picks five fields of \<^verbatim>\<open>CodexVersionInfo\<close>; the record of
  the info extends the record of the target, so that a function on targets reads an info
  too. The numeric fields are JavaScript numbers produced by \<^verbatim>\<open>Number\<close> on digit
  strings; they are modelled as integers.
\<close>

record CodexVersionTarget =
  major :: int
  minor :: int
  patch :: int
  prereleaseTag :: "string option"
  prereleaseNum :: "int option"

record CodexVersionInfo = CodexVersionTarget +
  raw :: "string option"
  parsed :: bool

definition ELICITATION_DECISION_MAX_VERSION :: CodexVersionTarget where
  "ELICITATION_DECISION_MAX_VERSION =
     \<lparr>major = 0, minor = 77, patch = 0, prereleaseTag = None, prereleaseNum = None\<rparr>"

text \<open>
  \<^verbatim>\<open>!tag\<close> on an optional string: true for \<^verbatim>\<open>undefined\<close> and for the empty string.
\<close>

definition tag_falsy :: "string option \<Rightarrow> bool" where
  "tag_falsy t = (case t of None \<Rightarrow> True | Some s \<Rightarrow> s = [])"

text \<open>
  \<^verbatim>\<open>compareVersions\<close>. The collation \<^verbatim>\<open>String.prototype.localeCompare\<close> belongs to the
  JavaScript runtime and depends on its locale; the comparator takes it as the parameter
  \<open>localeCompare\<close>. The branches come in the order of the source, the fourth test on the
  tags (no branch can reach it with a true condition) included.
\<close>

definition compareVersions ::
  "(string \<Rightarrow> string \<Rightarrow> int) \<Rightarrow> 'a CodexVersionTarget_scheme \<Rightarrow> 'b CodexVersionTarget_scheme \<Rightarrow> int"
where
  "compareVersions localeCompare info target =
     (if major info \<noteq> major target then major info - major target
      else if minor info \<noteq> minor target then minor info - minor target
      else if patch info \<noteq> patch target then patch info - patch target
      else
        let infoTag = prereleaseTag info; targetTag = prereleaseTag target in
        if tag_falsy infoTag \<and> tag_falsy targetTag then 0
        else if tag_falsy infoTag \<and> \<not> tag_falsy targetTag then 1
        else if \<not> tag_falsy infoTag \<and> tag_falsy targetTag then - 1
        else if tag_falsy infoTag \<or> tag_falsy targetTag then 0
        else if infoTag \<noteq> targetTag then localeCompare (the infoTag) (the targetTag)
        else
          let infoNum = (case prereleaseNum info of None \<Rightarrow> 0 | Some n \<Rightarrow> n);
              targetNum = (case prereleaseNum target of None \<Rightarrow> 0 | Some n \<Rightarrow> n)
          in infoNum - targetNum)"

definition isVersionAtMost ::
  "(string \<Rightarrow> string \<Rightarrow> int) \<Rightarrow> CodexVersionInfo \<Rightarrow> CodexVersionTarget \<Rightarrow> bool"
where
  "isVersionAtMost localeCompare info target =
     (if \<not> parsed info then False else compareVersions localeCompare info target \<le> 0)"

definition getElicitationResponseStyle ::
  "(string \<Rightarrow> string \<Rightarrow> int) \<Rightarrow> CodexVersionInfo \<Rightarrow> string option \<Rightarrow> ElicitationResponseStyle"
where
  "getElicitationResponseStyle localeCompare info override =
     (if override = Some ''decision'' then style_decision
      else if override = Some ''both'' then style_both
      else if \<not> parsed info then style_both
      else if isVersionAtMost localeCompare info ELICITATION_DECISION_MAX_VERSION
        then style_decision
      else style_both)"

text \<open>
  The spec's reading of ``at or below'': the order of the triples
  (major, minor, patch), the first difference deciding.
\<close>

definition triple_less :: "int \<times> int \<times> int \<Rightarrow> int \<times> int \<times> int \<Rightarrow> bool" where
  "triple_less a b =
     (case a of (a1, a2, a3) \<Rightarrow> case b of (b1, b2, b3) \<Rightarrow>
        a1 < b1 \<or> (a1 = b1 \<and> (a2 < b2 \<or> (a2 = b2 \<and> a3 < b3))))"

definition version_triple :: "'a CodexVersionTarget_scheme \<Rightarrow> int \<times> int \<times> int" where
  "version_triple v = (major v, minor v, patch v)"

section \<open>Request ids and JavaScript values\<close>

text \<open>
  Tool inputs are opaque JSON values (\<^verbatim>\<open>unknown\<close> in the source).
\<close>

datatype json =
    JNull
  | JBool bool
  | JNum int
  | JStr string
  | JArr "json list"
  | JObj "(string \<times> json) list"

text \<open>
  A request id is \<^verbatim>\<open>string | number\<close>. A number that is a safe integer (an integer of
  magnitude below \<open>2\<^sup>5\<^sup>3\<close>) is represented by that integer, and \<^verbatim>\<open>String\<close> prints it in
  decimal, with a minus sign when it is negative. Any other number is represented by the
  string that \<^verbatim>\<open>String\<close> gives for it (Number::toString of ECMAScript): \<^verbatim>\<open>1.5\<close> for
  one and a half, \<^verbatim>\<open>1e+21\<close> for \<open>10\<^sup>2\<^sup>1\<close>, where the exponent form begins.
\<close>

typedef safe_integer = "{n :: int. - (2 ^ 53) < n \<and> n < 2 ^ 53}"
  by (rule exI [of _ 0]) simp

datatype js_number = SafeInteger safe_integer | OtherNumber string

datatype request_id = IdString string | IdNumber js_number

definition digit_char :: "nat \<Rightarrow> char" where
  "digit_char d = ''0123456789'' ! d"

fun digits_of_nat :: "nat \<Rightarrow> string" where
  "digits_of_nat n =
     (if n < 10 then [digit_char n] else digits_of_nat (n div 10) @ [digit_char (n mod 10)])"

declare digits_of_nat.simps [simp del]

text \<open>The decimal numeral of an integer.\<close>

definition decimal_string :: "int \<Rightarrow> string" where
  "decimal_string i =
     (if i < 0 then CHR ''-'' # digits_of_nat (nat (- i)) else digits_of_nat (nat i))"

definition js_String :: "js_number \<Rightarrow> string" where
  "js_String x =
     (case x of
        SafeInteger n \<Rightarrow> decimal_string (Rep_safe_integer n)
      | OtherNumber printed \<Rightarrow> printed)"

text \<open>Reading a decimal numeral back, to state what \<open>decimal_string\<close> prints.\<close>

definition digit_value :: "char \<Rightarrow> nat" where
  "digit_value c = of_char c - 48"

definition nat_of_digits :: "string \<Rightarrow> nat" where
  "nat_of_digits ds = foldl (\<lambda>acc c. 10 * acc + digit_value c) 0 ds"

definition normalizeRequestId :: "request_id \<Rightarrow> string" where
  "normalizeRequestId i = (case i of IdString s \<Rightarrow> s | IdNumber n \<Rightarrow> js_String n)"

section \<open>The permission handler (utils/BasePermissionHandler.ts)\<close>

text \<open>
  The inbound decision message. The field names of the source carry the suffix \<open>_r\<close>,
  since \<open>id\<close>, \<open>approved\<close> and \<open>decision\<close> are taken.
\<close>

record PermissionResponse =
  id_r :: request_id
  approved_r :: bool
  decision_r :: "PermissionDecision option"
  execPolicyAmendment_r :: "ExecPolicyAmendment option"

text \<open>
  A pending request holds the tool name, the input and the two functions of the promise
  made by \<^verbatim>\<open>handleToolCall\<close>. Calling either function is an effect outside the handler:
  the model appends each call to the trace \<open>effects\<close>, and that is all there is to
  \<^verbatim>\<open>resolve\<close>. \<^verbatim>\<open>reset\<close> calls \<^verbatim>\<open>reject\<close> inside try/catch, and the type of the field
  admits any function, so the field \<open>reject\<close> gives, for the message of the error passed
  to it, what the call does: it returns, it throws, or it first calls \<^verbatim>\<open>reset()\<close> on the
  handler (\<^verbatim>\<open>Date.now()\<close> reading the given time in that call) and then goes on.
\<close>

datatype callback = Returns | Throws string | CallsReset nat callback

text \<open>The error with which a callback ends, if it throws.\<close>

fun thrown :: "callback \<Rightarrow> string option" where
  "thrown Returns = None"
| "thrown (Throws err) = Some err"
| "thrown (CallsReset t c) = thrown c"

record PendingRequest =
  toolName :: string
  input :: json
  reject :: "string \<Rightarrow> callback"

datatype effect =
    ResolveCalled string PermissionResult
  | RejectCalled string string
  | RejectErrorCaught string string

datatype request_status = status_approved | status_denied | status_canceled

text \<open>The entries of \<^verbatim>\<open>requests\<close> and \<^verbatim>\<open>completedRequests\<close> in the agent state.\<close>

record RequestEntry =
  tool :: string
  arguments :: json
  createdAt :: nat

record CompletedRequest = RequestEntry +
  completedAt :: nat
  status :: request_status
  reason :: "string option"
  decision_c :: "PermissionDecision option"

text \<open>
  A value of the completed map is built as \<^verbatim>\<open>{...request, completedAt, status, ...}\<close>.
  The spread copies the own enumerable properties of \<^verbatim>\<open>request\<close>: the three fields of an
  entry, or nothing when \<^verbatim>\<open>request\<close> is a function or the prototype object that the
  lookup found on \<^verbatim>\<open>Object.prototype\<close>. In the second case the record has the fields
  \<^verbatim>\<open>completedAt\<close>, \<^verbatim>\<open>status\<close> and \<^verbatim>\<open>decision\<close> only.
\<close>

datatype completed_record =
    Completed CompletedRequest
  | CompletedBare nat request_status PermissionDecision

text \<open>
  The agent state of the session (the type \<^verbatim>\<open>AgentState\<close> is declared in
  \<^verbatim>\<open>@/api/types\<close>, which is not among the sources; the handler reads and writes the
  two fields below). Both maps are optional fields of a JavaScript object, kept as
  association lists of their own properties in insertion order; the theorems read them
  through \<^const>\<open>map_of\<close>.
  The spreads \<^verbatim>\<open>...currentState\<close> carry every other field along, which is the
  extension part of the record.
\<close>

record AgentState =
  requests :: "(string \<times> RequestEntry) list option"
  completedRequests :: "(string \<times> completed_record) list option"

definition or_empty :: "('k \<times> 'v) list option \<Rightarrow> ('k \<times> 'v) list" where
  "or_empty m = (case m of None \<Rightarrow> [] | Some al \<Rightarrow> al)"

text \<open>
  Both maps are plain objects, so a read \<^verbatim>\<open>obj[key]\<close> that finds no own property goes
  on to \<^verbatim>\<open>Object.prototype\<close>. These are its property names; each of them holds a
  function, except \<^verbatim>\<open>__proto__\<close>, which reads as the prototype object itself and whose
  setter replaces the prototype of the object assigned to.
\<close>

definition object_prototype_keys :: "string list" where
  "object_prototype_keys =
     [''constructor'', ''__defineGetter__'', ''__defineSetter__'', ''hasOwnProperty'',
      ''__lookupGetter__'', ''__lookupSetter__'', ''isPrototypeOf'',
      ''propertyIsEnumerable'', ''toString'', ''valueOf'', ''__proto__'',
      ''toLocaleString'']"

text \<open>
  The read \<^verbatim>\<open>obj?.[key]\<close> on an optional map: an own property, an inherited one (a
  truthy value without own enumerable properties), or \<^verbatim>\<open>undefined\<close>.
\<close>

datatype 'v property = OwnProperty 'v | InheritedProperty | NoProperty

definition get_property :: "(string \<times> 'v) list option \<Rightarrow> string \<Rightarrow> 'v property" where
  "get_property obj k =
     (case obj of
        None \<Rightarrow> NoProperty
      | Some al \<Rightarrow>
          (case map_of al k of
             Some v \<Rightarrow> OwnProperty v
           | None \<Rightarrow> if k \<in> set object_prototype_keys then InheritedProperty else NoProperty))"

text \<open>
  The assignment \<^verbatim>\<open>obj[key] = value\<close> of an object value on a plain object: it writes
  an own property, except for the key \<^verbatim>\<open>__proto__\<close> on an object without an own
  property of that name, where the inherited setter makes \<open>value\<close> the prototype of the
  object and no own property is written. The handler reads the completed map through
  spreads alone, which copy own properties, so the prototype is not kept in the model.
\<close>

definition js_assign :: "string \<Rightarrow> 'v \<Rightarrow> (string \<times> 'v) list \<Rightarrow> (string \<times> 'v) list" where
  "js_assign k v al =
     (if k = ''__proto__'' \<and> map_of al k = None then al else AList.update k v al)"

text \<open>
  \<^verbatim>\<open>PermissionMode\<close> is declared in \<^verbatim>\<open>@/api/types\<close>, which is not among the sources. The
  handler distinguishes four of its values; any further value takes the \<^verbatim>\<open>default:\<close>
  branch of the switch.
\<close>

datatype PermissionMode =
    mode_default
  | mode_read_only
  | mode_safe_yolo
  | mode_yolo
  | mode_other string

text \<open>
  The handler object, with the agent state of its session and the trace of the calls of
  promise callbacks. The two JavaScript \<^verbatim>\<open>Map\<close>s are association lists in insertion
  order (\<^const>\<open>AList.update\<close> overwrites in place or appends, as \<^verbatim>\<open>Map.set\<close> does). A
  timer is represented by the tool name its callback would print; \<^verbatim>\<open>clearTimeout\<close>
  followed by \<^verbatim>\<open>delete\<close> removes it. Each operation that stamps a record takes, as
  \<open>now\<close>, what \<^verbatim>\<open>Date.now()\<close> reads while it runs.
\<close>

record 'a handler_state =
  pendingRequests :: "(string \<times> PendingRequest) list"
  pendingWarningTimers :: "(string \<times> string) list"
  isResetting :: bool
  currentPermissionMode :: PermissionMode
  agentState :: "'a AgentState_scheme"
  effects :: "effect list"

definition new_handler :: "'a AgentState_scheme \<Rightarrow> 'a handler_state" where
  "new_handler session =
     \<lparr>pendingRequests = [], pendingWarningTimers = [], isResetting = False,
      currentPermissionMode = mode_default, agentState = session, effects = []\<rparr>"

definition updateSession :: "'a AgentState_scheme \<Rightarrow> 'a handler_state \<Rightarrow> 'a handler_state" where
  "updateSession newSession s = s\<lparr>agentState := newSession\<rparr>"

text \<open>
  Modelled from the spec: \<^verbatim>\<open>ApiSessionClient.updateAgentState\<close> is not among the
  sources. As the agent-state mutation contract of the spec says, and as the session of
  the tests does, it applies the given transformation to the state atomically.
\<close>

definition updateAgentState ::
  "('a AgentState_scheme \<Rightarrow> 'a AgentState_scheme) \<Rightarrow> 'a handler_state \<Rightarrow> 'a handler_state"
where
  "updateAgentState f s = s\<lparr>agentState := f (agentState s)\<rparr>"

definition schedulePendingWarning :: "string \<Rightarrow> string \<Rightarrow> 'a handler_state \<Rightarrow> 'a handler_state" where
  "schedulePendingWarning requestId name s =
     (if map_of (pendingWarningTimers s) requestId \<noteq> None then s
      else s\<lparr>pendingWarningTimers := AList.update requestId name (pendingWarningTimers s)\<rparr>)"

definition clearPendingWarning :: "string \<Rightarrow> 'a handler_state \<Rightarrow> 'a handler_state" where
  "clearPendingWarning requestId s =
     s\<lparr>pendingWarningTimers := AList.delete requestId (pendingWarningTimers s)\<rparr>"

definition registerPendingRequest ::
  "string \<Rightarrow> PendingRequest \<Rightarrow> 'a handler_state \<Rightarrow> 'a handler_state"
where
  "registerPendingRequest requestId pending s =
     schedulePendingWarning requestId (toolName pending)
       (s\<lparr>pendingRequests := AList.update requestId pending (pendingRequests s)\<rparr>)"

text \<open>
  The result computed by the handler of the \<^verbatim>\<open>permission\<close> call from the response.
\<close>

definition permission_result :: "PermissionResponse \<Rightarrow> PermissionResult" where
  "permission_result response =
     (if approved_r response then
        (let wantsExecpolicyAmendment =
               (decision_r response = Some approved_execpolicy_amendment
                \<and> command_length_truthy (execPolicyAmendment_r response))
         in if wantsExecpolicyAmendment then
              \<lparr>decision = approved_execpolicy_amendment,
               execPolicyAmendment = execPolicyAmendment_r response\<rparr>
            else
              \<lparr>decision = (if decision_r response = Some approved_for_session
                           then approved_for_session else approved),
               execPolicyAmendment = None\<rparr>)
      else
        \<lparr>decision = (if decision_r response = Some denied then denied else abort),
         execPolicyAmendment = None\<rparr>)"

text \<open>
  The transformation handed to \<^verbatim>\<open>updateAgentState\<close> on a decision. The guard
  \<^verbatim>\<open>if (!request) return currentState\<close> tests what the read of \<^verbatim>\<open>requests?.[requestId]\<close>
  found; the rest pattern drops the own property of that name, and the computed key of
  the object literal writes an own property whatever the name is.
\<close>

definition complete_request ::
  "nat \<Rightarrow> string \<Rightarrow> PermissionResponse \<Rightarrow> PermissionResult
     \<Rightarrow> 'a AgentState_scheme \<Rightarrow> 'a AgentState_scheme"
where
  "complete_request now requestId response result currentState =
     (case get_property (requests currentState) requestId of
        NoProperty \<Rightarrow> currentState
      | OwnProperty req \<Rightarrow>
          currentState
            \<lparr>requests := Some (AList.delete requestId (or_empty (requests currentState))),
             completedRequests :=
               Some (AList.update requestId
                 (Completed
                   \<lparr>tool = tool req, arguments = arguments req,
                    createdAt = createdAt req, completedAt = now,
                    status = (if approved_r response then status_approved else status_denied),
                    reason = None, decision_c = Some (decision result)\<rparr>)
                 (or_empty (completedRequests currentState)))\<rparr>
      | InheritedProperty \<Rightarrow>
          currentState
            \<lparr>requests := Some (AList.delete requestId (or_empty (requests currentState))),
             completedRequests :=
               Some (AList.update requestId
                 (CompletedBare now
                   (if approved_r response then status_approved else status_denied)
                   (decision result))
                 (or_empty (completedRequests currentState)))\<rparr>)"

definition permission_handler ::
  "nat \<Rightarrow> PermissionResponse \<Rightarrow> 'a handler_state \<Rightarrow> 'a handler_state"
where
  "permission_handler now response s =
     (let requestId = normalizeRequestId (id_r response) in
      case map_of (pendingRequests s) requestId of
        None \<Rightarrow> s
      | Some pending \<Rightarrow>
          let s1 = s\<lparr>pendingRequests := AList.delete requestId (pendingRequests s)\<rparr>;
              s2 = clearPendingWarning requestId s1;
              result = permission_result response;
              s3 = s2\<lparr>effects := effects s2 @ [ResolveCalled requestId result]\<rparr>
          in updateAgentState (complete_request now requestId response result) s3)"

definition addPendingRequestToState ::
  "nat \<Rightarrow> string \<Rightarrow> string \<Rightarrow> json \<Rightarrow> 'a handler_state \<Rightarrow> 'a handler_state"
where
  "addPendingRequestToState now toolCallId name inp s =
     (let requestId = normalizeRequestId (IdString toolCallId) in
      updateAgentState
        (\<lambda>currentState. currentState
           \<lparr>requests := Some (AList.update requestId
              \<lparr>tool = name, arguments = inp, createdAt = now\<rparr>
              (or_empty (requests currentState)))\<rparr>) s)"

subsection \<open>reset\<close>

text \<open>
  Running a callback of \<^verbatim>\<open>reject\<close> on the handler: \<open>rst\<close> is the method \<^verbatim>\<open>reset\<close> that
  the callback may call.
\<close>

fun run_callback ::
  "(nat \<Rightarrow> 'a handler_state \<Rightarrow> 'a handler_state) \<Rightarrow> callback \<Rightarrow> 'a handler_state
     \<Rightarrow> 'a handler_state"
where
  "run_callback rst Returns s = s"
| "run_callback rst (Throws err) s = s"
| "run_callback rst (CallsReset t c) s = run_callback rst c (rst t s)"

text \<open>
  The loop over the snapshot: clear the timer, call \<^verbatim>\<open>reject\<close> with the error
  \<^verbatim>\<open>Session reset\<close>, catch what the call throws, go on with the next entry.
\<close>

fun reject_all ::
  "(nat \<Rightarrow> 'a handler_state \<Rightarrow> 'a handler_state) \<Rightarrow> (string \<times> PendingRequest) list
     \<Rightarrow> 'a handler_state \<Rightarrow> 'a handler_state"
where
  "reject_all rst [] s = s"
| "reject_all rst ((requestId, p) # rest) s =
     (let s1 = clearPendingWarning requestId s;
          s2 = s1\<lparr>effects := effects s1 @ [RejectCalled requestId ''Session reset'']\<rparr>;
          s3 = run_callback rst (reject p ''Session reset'') s2;
          s4 = (case thrown (reject p ''Session reset'') of
                  None \<Rightarrow> s3
                | Some err \<Rightarrow> s3\<lparr>effects := effects s3 @ [RejectErrorCaught requestId err]\<rparr>)
      in reject_all rst rest s4)"

text \<open>
  What one round of the loop of \<^verbatim>\<open>reset\<close> adds to the trace for an entry: the call of
  \<^verbatim>\<open>reject\<close>, and the error that was caught when the call threw.
\<close>

definition reject_events :: "string \<times> PendingRequest \<Rightarrow> effect list" where
  "reject_events e =
     (case e of (requestId, p) \<Rightarrow>
        RejectCalled requestId ''Session reset'' #
        (case thrown (reject p ''Session reset'') of
           None \<Rightarrow> []
         | Some err \<Rightarrow> [RejectErrorCaught requestId err]))"

definition cancel_entry :: "nat \<Rightarrow> RequestEntry \<Rightarrow> completed_record" where
  "cancel_entry now req =
     Completed
       \<lparr>tool = tool req, arguments = arguments req, createdAt = createdAt req,
        completedAt = now, status = status_canceled, reason = Some ''Session reset'',
        decision_c = None\<rparr>"

text \<open>
  The transformation of \<^verbatim>\<open>reset\<close>: a copy of the own properties of the completed map,
  then one assignment \<^verbatim>\<open>completedRequests[id] = ...\<close> for each entry of the requests.
\<close>

definition cancel_requests :: "nat \<Rightarrow> 'a AgentState_scheme \<Rightarrow> 'a AgentState_scheme" where
  "cancel_requests now currentState =
     (let pendingEntries = or_empty (requests currentState);
          completed = fold (\<lambda>(requestId, req) acc. js_assign requestId (cancel_entry now req) acc)
                        pendingEntries (or_empty (completedRequests currentState))
      in currentState\<lparr>requests := Some [], completedRequests := Some completed\<rparr>)"

text \<open>
  The body of \<^verbatim>\<open>reset\<close>, with the method that the callbacks reach as \<^verbatim>\<open>reset\<close> as the
  argument \<open>rst\<close>.
\<close>

definition reset_with ::
  "(nat \<Rightarrow> 'a handler_state \<Rightarrow> 'a handler_state) \<Rightarrow> nat \<Rightarrow> 'a handler_state \<Rightarrow> 'a handler_state"
where
  "reset_with rst now s =
     (if isResetting s then s
      else
        let s0 = s\<lparr>isResetting := True\<rparr>;
            pendingSnapshot = pendingRequests s0;
            s1 = s0\<lparr>pendingRequests := []\<rparr>;
            s2 = reject_all rst pendingSnapshot s1;
            s3 = updateAgentState (cancel_requests now) s2
        in s3\<lparr>isResetting := False\<rparr>)"

text \<open>
  \<^verbatim>\<open>reset\<close> is the body with \<^verbatim>\<open>reset\<close> itself for the callbacks. A call from inside the
  loop finds the guard up and returns, so the recursion is two calls deep at most; the
  definition unrolls it that far, and lemma \<open>reset_recursion\<close> shows that it solves the
  recursive equation of the source, \<open>reset = reset_with reset\<close>.
\<close>

definition reset :: "nat \<Rightarrow> 'a handler_state \<Rightarrow> 'a handler_state" where
  "reset = reset_with (reset_with (\<lambda>t s. s))"

section \<open>The Codex permission handler (codex/utils/permissionHandler.ts)\<close>

text \<open>
  \<^verbatim>\<open>toLowerCase\<close> and \<^verbatim>\<open>includes\<close> on strings (the latter under the name
  \<open>includes_str\<close>). A string is the UTF-8 encoding of the JavaScript string. The names
  and words that the handler looks for are ASCII, so what counts of a lower-cased string
  are its ASCII characters. They come from the ASCII characters of the argument, the
  letters A to Z turned into a to z, and from the two other characters whose lower case
  has an ASCII letter in it: U+212A (KELVIN SIGN, bytes E2 84 AA), which becomes \<open>k\<close>, and
  U+0130 (capital I with dot above, bytes C4 B0), which becomes \<open>i\<close> followed by U+0307
  (bytes CC 87). Every other character is left as it is: its lower case has no ASCII
  character in it either.
\<close>

definition lower_char :: "char \<Rightarrow> char" where
  "lower_char c =
     (case map_of (zip ''ABCDEFGHIJKLMNOPQRSTUVWXYZ'' ''abcdefghijklmnopqrstuvwxyz'') c of
        Some l \<Rightarrow> l
      | None \<Rightarrow> c)"

fun toLowerCase :: "string \<Rightarrow> string" where
  "toLowerCase (a # b # c # cs) =
     (if [a, b, c] = [CHR 0xE2, CHR 0x84, CHR 0xAA] then CHR ''k'' # toLowerCase cs
      else if [a, b] = [CHR 0xC4, CHR 0xB0] then
        CHR ''i'' # CHR 0xCC # CHR 0x87 # toLowerCase (c # cs)
      else lower_char a # toLowerCase (b # c # cs))"
| "toLowerCase [a, b] =
     (if [a, b] = [CHR 0xC4, CHR 0xB0] then [CHR ''i'', CHR 0xCC, CHR 0x87]
      else [lower_char a, lower_char b])"
| "toLowerCase [a] = [lower_char a]"
| "toLowerCase [] = []"

fun startsWith :: "string \<Rightarrow> string \<Rightarrow> bool" where
  "startsWith s [] = True"
| "startsWith [] (c # cs) = False"
| "startsWith (d # ds) (c # cs) = (d = c \<and> startsWith ds cs)"

fun includes_str :: "string \<Rightarrow> string \<Rightarrow> bool" where
  "includes_str [] needle = (needle = [])"
| "includes_str (d # ds) needle = (startsWith (d # ds) needle \<or> includes_str ds needle)"

definition alwaysAutoApproveNames :: "string list" where
  "alwaysAutoApproveNames =
     [''change_title'', ''happy__change_title'', ''GeminiReasoning'', ''CodexReasoning'',
      ''think'', ''save_memory'']"

definition alwaysAutoApproveIds :: "string list" where
  "alwaysAutoApproveIds = [''change_title'', ''save_memory'']"

definition writeTools :: "string list" where
  "writeTools = [''write'', ''edit'', ''create'', ''delete'', ''patch'', ''fs-edit'']"

definition shouldAutoApprove :: "PermissionMode \<Rightarrow> string \<Rightarrow> string \<Rightarrow> bool" where
  "shouldAutoApprove currentMode name toolCallId =
     (if list_ex (\<lambda>n. includes_str (toLowerCase name) (toLowerCase n)) alwaysAutoApproveNames
        then True
      else if list_ex (\<lambda>i. includes_str (toLowerCase toolCallId) (toLowerCase i)) alwaysAutoApproveIds
        then True
      else
        (case currentMode of
           mode_yolo \<Rightarrow> True
         | mode_safe_yolo \<Rightarrow> True
         | mode_read_only \<Rightarrow>
             (let isWriteTool = list_ex (\<lambda>wt. includes_str (toLowerCase name) wt) writeTools
              in \<not> isWriteTool)
         | mode_default \<Rightarrow> False
         | mode_other _ \<Rightarrow> False))"

definition setPermissionMode :: "PermissionMode \<Rightarrow> 'a handler_state \<Rightarrow> 'a handler_state" where
  "setPermissionMode m s =
     (if currentPermissionMode s = m then s else s\<lparr>currentPermissionMode := m\<rparr>)"

text \<open>
  \<^verbatim>\<open>handleToolCall\<close> returns a promise. The model returns the new state of the handler
  and \<open>Some result\<close> when the promise is resolved by the call itself, \<open>None\<close> when it is
  left to be settled by a later call of \<^verbatim>\<open>resolve\<close> or \<^verbatim>\<open>reject\<close>. The argument \<open>now\<close>
  is what \<^verbatim>\<open>Date.now()\<close> reads during the call.
\<close>

definition handleToolCall ::
  "nat \<Rightarrow> request_id \<Rightarrow> string \<Rightarrow> json \<Rightarrow> 'a handler_state
     \<Rightarrow> 'a handler_state \<times> PermissionResult option"
where
  "handleToolCall now toolCallId name inp s =
     (let requestId = normalizeRequestId toolCallId in
      if shouldAutoApprove (currentPermissionMode s) name requestId then
        (let d = (if currentPermissionMode s = mode_yolo then approved_for_session else approved);
             s' = updateAgentState
                    (\<lambda>currentState. currentState
                       \<lparr>completedRequests := Some (AList.update requestId
                          (Completed
                            \<lparr>tool = name, arguments = inp, createdAt = now, completedAt = now,
                             status = status_approved, reason = None, decision_c = Some d\<rparr>)
                          (or_empty (completedRequests currentState)))\<rparr>) s
         in (s', Some \<lparr>decision = d, execPolicyAmendment = None\<rparr>))
      else
        (let s1 = registerPendingRequest requestId
                    \<lparr>toolName = name, input = inp, reject = (\<lambda>_. Returns)\<rparr> s;
             s2 = addPendingRequestToState now requestId name inp s1
         in (s2, None)))"

section \<open>The restart after an abort (applyAbortRestart of codex/runCodex.ts)\<close>

text \<open>
  \<^verbatim>\<open>runCodex.ts\<close> is not among the sources; the function is embedded from its listing in
  the implementation plan of the repository (``Codex Abort Restart Guard Implementation
  Plan'', Task 2, Step 1), which the test \<^verbatim>\<open>abortRestart.test.ts\<close> exercises.

  The callbacks act on a world \<open>'w\<close> outside the function; the function threads the world
  through its calls in the order of the source.
\<close>

record QueuedMessage =
  message :: string
  mode :: json
  isolate :: bool
  hash :: string

record AbortRestartState =
  wasCreated :: bool
  currentModeHash :: "string option"
  thinking :: bool

record AbortRestartResult = AbortRestartState +
  pending :: QueuedMessage

record 'w AbortRestartCallbacks =
  clearSession :: "'w \<Rightarrow> 'w"
  resetPermissions :: "'w \<Rightarrow> 'w"
  abortReasoning :: "'w \<Rightarrow> 'w"
  resetDiff :: "'w \<Rightarrow> 'w"
  keepAlive :: "bool \<Rightarrow> string \<Rightarrow> 'w \<Rightarrow> 'w"
  addStatus :: "string \<Rightarrow> 'w \<Rightarrow> 'w"

text \<open>
  The first status line of the source repeats, 40 times, the box-drawing character U+2550,
  which is the three bytes E2 95 90 in UTF-8.
\<close>

definition status_rule :: string where
  "status_rule = concat (replicate 40 [CHR 0xE2, CHR 0x95, CHR 0x90])"

definition applyAbortRestart ::
  "QueuedMessage \<Rightarrow> AbortRestartState \<Rightarrow> 'w AbortRestartCallbacks \<Rightarrow> 'w
     \<Rightarrow> 'w \<times> AbortRestartResult"
where
  "applyAbortRestart msg state callbacks w =
     (let w1 = addStatus callbacks status_rule w;
          w2 = addStatus callbacks ''Starting new Codex session (after abort)...'' w1;
          w3 = clearSession callbacks w2;
          w4 = resetPermissions callbacks w3;
          w5 = abortReasoning callbacks w4;
          w6 = resetDiff callbacks w5;
          w7 = keepAlive callbacks False ''remote'' w6
      in (w7, \<lparr>wasCreated = False, currentModeHash = None, thinking = False,
               pending = msg\<rparr>))"

text \<open>Callbacks that write down each call, as the mocks of the test do.\<close>

datatype restart_call =
    ClearSession
  | ResetPermissions
  | AbortReasoning
  | ResetDiff
  | KeepAlive bool string
  | AddStatus string

definition recording_callbacks :: "restart_call list AbortRestartCallbacks" where
  "recording_callbacks =
     \<lparr>clearSession = (\<lambda>w. w @ [ClearSession]),
      resetPermissions = (\<lambda>w. w @ [ResetPermissions]),
      abortReasoning = (\<lambda>w. w @ [AbortReasoning]),
      resetDiff = (\<lambda>w. w @ [ResetDiff]),
      keepAlive = (\<lambda>v source w. w @ [KeepAlive v source]),
      addStatus = (\<lambda>text w. w @ [AddStatus text])\<rparr>"

definition is_AddStatus :: "restart_call \<Rightarrow> bool" where
  "is_AddStatus c = (case c of AddStatus _ \<Rightarrow> True | _ \<Rightarrow> False)"

section \<open>The runner (codex/runner.ts)\<close>

record CodexCommand =
  command_of :: string
  args :: "string list"

record CodexRunner = CodexCommand +
  label :: string

definition CODEX_MCP_SUBCOMMAND :: string where
  "CODEX_MCP_SUBCOMMAND = ''mcp-server''"

definition buildCodexRunner :: "string option \<Rightarrow> CodexRunner" where
  "buildCodexRunner spec =
     (case spec of
        Some sp \<Rightarrow>
          (if sp \<noteq> [] then \<lparr>command_of = ''npx'', args = [''-y'', sp], label = sp\<rparr>
           else \<lparr>command_of = ''codex'', args = [], label = ''codex''\<rparr>)
      | None \<Rightarrow> \<lparr>command_of = ''codex'', args = [], label = ''codex''\<rparr>)"

definition buildCodexMcpCommand :: "CodexRunner \<Rightarrow> CodexCommand" where
  "buildCodexMcpCommand runner =
     \<lparr>command_of = command_of runner, args = args runner @ [CODEX_MCP_SUBCOMMAND]\<rparr>"

section \<open>The subcommand chosen by the MCP client (codex/codexMcpClient.ts)\<close>

text \<open>
  The strings of \<^verbatim>\<open>getCodexMcpCommand\<close> are ASCII. \<open>is_space\<close> is the class \<^verbatim>\<open>\s\<close> on
  them, \<open>is_digit\<close> the class \<^verbatim>\<open>\d\<close>.
\<close>

definition is_digit :: "char \<Rightarrow> bool" where
  "is_digit c = (c \<in> set ''0123456789'')"

definition is_space :: "char \<Rightarrow> bool" where
  "is_space c = (c \<in> {CHR '' '', CHR 0x09, CHR 0x0A, CHR 0x0B, CHR 0x0C, CHR 0x0D})"

definition trim :: "string \<Rightarrow> string" where
  "trim s = rev (dropWhile is_space (rev (dropWhile is_space s)))"

text \<open>
  The optional group \<^verbatim>\<open>(?:-alpha\.\d+)?\<close> at the start of a string: the text it matches,
  empty when the group does not match.
\<close>

definition alpha_suffix :: "string \<Rightarrow> string" where
  "alpha_suffix s =
     (if startsWith s ''-alpha.'' then
        (let d = takeWhile is_digit (drop 7 s) in if d = [] then [] else ''-alpha.'' @ d)
      else [])"

text \<open>
  The capture group \<^verbatim>\<open>(\d+\.\d+\.\d+(?:-alpha\.\d+)?)\<close> at the start of a string. Every
  \<^verbatim>\<open>\d+\<close> is greedy and is followed by a character that is not a digit, so the
  longest run of digits is the only one that can match.
\<close>

definition match_version :: "string \<Rightarrow> string option" where
  "match_version s =
     (let a = takeWhile is_digit s; r1 = dropWhile is_digit s in
      if a = [] then None
      else if startsWith r1 ''.'' then
        (let b = takeWhile is_digit (tl r1); r2 = dropWhile is_digit (tl r1) in
         if b = [] then None
         else if startsWith r2 ''.'' then
           (let c = takeWhile is_digit (tl r2); r3 = dropWhile is_digit (tl r2) in
            if c = [] then None
            else Some (a @ ''.'' @ b @ ''.'' @ c @ alpha_suffix r3))
         else None)
      else None)"

text \<open>The pattern \<^verbatim>\<open>codex-cli\s+(...)\<close> at the start of a string.\<close>

definition match_codex_cli :: "string \<Rightarrow> string option" where
  "match_codex_cli s =
     (if startsWith s ''codex-cli'' then
        (let r = drop 9 s in
         if takeWhile is_space r = [] then None else match_version (dropWhile is_space r))
      else None)"

text \<open>\<^verbatim>\<open>String.prototype.match\<close> without the flag g: the leftmost match, its group 1.\<close>

fun match_anywhere :: "string \<Rightarrow> string option" where
  "match_anywhere [] = match_codex_cli []"
| "match_anywhere (c # cs) =
     (case match_codex_cli (c # cs) of
        Some m \<Rightarrow> Some m
      | None \<Rightarrow> match_anywhere cs)"

text \<open>\<^verbatim>\<open>split(/[-.]/)\<close>: the pieces between the separators, empty pieces included.\<close>

fun split_chars :: "(char \<Rightarrow> bool) \<Rightarrow> string \<Rightarrow> string \<Rightarrow> string list" where
  "split_chars is_sep piece [] = [rev piece]"
| "split_chars is_sep piece (c # cs) =
     (if is_sep c then rev piece # split_chars is_sep [] cs
      else split_chars is_sep (c # piece) cs)"

text \<open>
  \<^verbatim>\<open>split('-alpha.')[1]\<close>: the piece after the first separator, up to the next
  separator or the end; undefined without a separator.
\<close>

fun before_sep :: "string \<Rightarrow> string \<Rightarrow> string" where
  "before_sep sep [] = []"
| "before_sep sep (c # cs) = (if startsWith (c # cs) sep then [] else c # before_sep sep cs)"

fun second_piece :: "string \<Rightarrow> string \<Rightarrow> string option" where
  "second_piece sep [] = None"
| "second_piece sep (c # cs) =
     (if startsWith (c # cs) sep then Some (before_sep sep (drop (length sep) (c # cs)))
      else second_piece sep cs)"

text \<open>
  \<^verbatim>\<open>Number\<close> and \<^verbatim>\<open>parseInt\<close> on the pieces of a version: a run of digits is read in
  decimal, the empty string is 0 for \<^verbatim>\<open>Number\<close>, and \<open>None\<close> is \<^verbatim>\<open>NaN\<close>. A comparison
  with \<^verbatim>\<open>NaN\<close> or \<^verbatim>\<open>undefined\<close> is false.
\<close>

definition js_Number :: "string \<Rightarrow> nat option" where
  "js_Number s = (if list_all is_digit s then Some (nat_of_digits s) else None)"

definition js_parseInt :: "string option \<Rightarrow> nat option" where
  "js_parseInt s =
     (case s of
        None \<Rightarrow> None
      | Some t \<Rightarrow> (let d = takeWhile is_digit t in if d = [] then None else Some (nat_of_digits d)))"

definition num_gt :: "nat option \<Rightarrow> nat \<Rightarrow> bool" where
  "num_gt x n = (case x of None \<Rightarrow> False | Some v \<Rightarrow> v > n)"

definition num_ge :: "nat option \<Rightarrow> nat \<Rightarrow> bool" where
  "num_ge x n = (case x of None \<Rightarrow> False | Some v \<Rightarrow> v \<ge> n)"

definition nth_number :: "nat option list \<Rightarrow> nat \<Rightarrow> nat option" where
  "nth_number xs i = (if i < length xs then xs ! i else None)"

text \<open>
  \<^verbatim>\<open>getCodexMcpCommand\<close>. The argument is what \<^verbatim>\<open>execSync('codex --version')\<close> returns,
  \<open>None\<close> when it throws; the result \<open>None\<close> is \<^verbatim>\<open>null\<close>.
\<close>

definition getCodexMcpCommand :: "string option \<Rightarrow> string option" where
  "getCodexMcpCommand version_output =
     (case version_output of
        None \<Rightarrow> None
      | Some out \<Rightarrow>
          (let version = trim out in
           case match_anywhere version of
             None \<Rightarrow> None
           | Some versionStr \<Rightarrow>
               (let numbers = map js_Number (split_chars (\<lambda>c. c = CHR ''-'' \<or> c = CHR ''.'') [] versionStr);
                    major_n = nth_number numbers 0;
                    minor_n = nth_number numbers 1;
                    patch_n = nth_number numbers 2
                in if num_gt major_n 0 \<or> num_gt minor_n 43 then Some ''mcp-server''
                   else if minor_n = Some 43 \<and> patch_n = Some 0 then
                     (if includes_str versionStr ''-alpha.'' then
                        (let alphaNum = js_parseInt (second_piece ''-alpha.'' versionStr)
                         in if num_ge alphaNum 5 then Some ''mcp-server'' else Some ''mcp'')
                      else Some ''mcp-server'')
                   else Some ''mcp'')))"

text \<open>
  \<^verbatim>\<open>CodexMcpClient.connect\<close>, up to the transport it builds: the command and the
  arguments handed to \<^verbatim>\<open>StdioClientTransport\<close>, or the error thrown when no subcommand
  was found.
\<close>

datatype connect_error = CodexCliNotFound

definition connect_transport :: "string option \<Rightarrow> connect_error + CodexCommand" where
  "connect_transport version_output =
     (case getCodexMcpCommand version_output of
        None \<Rightarrow> Inl CodexCliNotFound
      | Some mcpCommand \<Rightarrow> Inr \<lparr>command_of = ''codex'', args = [mcpCommand]\<rparr>)"

section \<open>Objects of the tests\<close>

text \<open>The session of the tests starts with the empty object as its agent state.\<close>

definition test_session :: AgentState where
  "test_session = \<lparr>requests = None, completedRequests = None\<rparr>"

text \<open>
  A collation to run the comparator on examples: the order of the character codes, the
  first difference deciding, which is how lower-case ASCII tags are collated.
\<close>

fun code_order_compare :: "string \<Rightarrow> string \<Rightarrow> int" where
  "code_order_compare [] [] = 0"
| "code_order_compare [] (d # ds) = - 1"
| "code_order_compare (c # cs) [] = 1"
| "code_order_compare (c # cs) (d # ds) =
     (if (of_char c :: nat) < of_char d then - 1
      else if (of_char d :: nat) < of_char c then 1
      else code_order_compare cs ds)"

text \<open>Version records as \<^verbatim>\<open>parseCodexVersion\<close> builds them, for the examples.\<close>

definition parsed_version ::
  "string \<Rightarrow> int \<Rightarrow> int \<Rightarrow> int \<Rightarrow> string option \<Rightarrow> int option \<Rightarrow> CodexVersionInfo"
where
  "parsed_version r ma mi pa tag num =
     \<lparr>major = ma, minor = mi, patch = pa, prereleaseTag = tag, prereleaseNum = num,
      raw = Some r, parsed = True\<rparr>"

definition unparsed_version :: "string option \<Rightarrow> CodexVersionInfo" where
  "unparsed_version r =
     \<lparr>major = 0, minor = 0, patch = 0, prereleaseTag = None, prereleaseNum = None,
      raw = r, parsed = False\<rparr>"

text \<open>The input \<^verbatim>\<open>{ command: 'ls', cwd: '/' }\<close> and the answers of the tests.\<close>

definition ls_input :: json where
  "ls_input = JObj [(''command'', JStr ''ls''), (''cwd'', JStr ''/'')]"

definition number_123 :: js_number where
  "number_123 = SafeInteger (Abs_safe_integer 123)"

text \<open>The number \<open>10\<^sup>2\<^sup>1\<close>, which \<^verbatim>\<open>String\<close> prints as \<^verbatim>\<open>1e+21\<close>.\<close>

definition number_1e21 :: js_number where
  "number_1e21 = OtherNumber ''1e+21''"

definition approve_123 :: PermissionResponse where
  "approve_123 =
     \<lparr>id_r = IdString ''123'', approved_r = True, decision_r = Some approved,
      execPolicyAmendment_r = None\<rparr>"

text \<open>
  A handler with two pending requests; the \<^verbatim>\<open>reject\<close> of the first calls \<^verbatim>\<open>reset()\<close>
  on the handler, at the time 7, and then throws.
\<close>

definition two_pending :: "unit handler_state" where
  "two_pending =
     \<lparr>pendingRequests =
        [(''a'', \<lparr>toolName = ''CodexBash'', input = JNull, reject = (\<lambda>_. CallsReset 7 (Throws ''boom''))\<rparr>),
         (''b'', \<lparr>toolName = ''CodexPatch'', input = JNull, reject = (\<lambda>_. Returns)\<rparr>)],
      pendingWarningTimers = [(''a'', ''CodexBash''), (''b'', ''CodexPatch'')],
      isResetting = False,
      currentPermissionMode = mode_default,
      agentState =
        \<lparr>requests = Some
           [(''a'', \<lparr>tool = ''CodexBash'', arguments = JNull, createdAt = 5\<rparr>),
            (''b'', \<lparr>tool = ''CodexPatch'', arguments = JNull, createdAt = 6\<rparr>)],
         completedRequests = None\<rparr>,
      effects = []\<rparr>"

text \<open>
  A handler with two requests in flight, the first under the id \<open>__proto__\<close>.
\<close>

definition proto_pending :: "unit handler_state" where
  "proto_pending =
     fst (handleToolCall 6 (IdString ''exec-1'') ''CodexBash'' ls_input
       (fst (handleToolCall 5 (IdString ''__proto__'') ''CodexBash'' ls_input
          (new_handler test_session))))"

text \<open>The message and the state of the test of \<^verbatim>\<open>applyAbortRestart\<close>.\<close>

definition hello_message :: QueuedMessage where
  "hello_message =
     \<lparr>message = ''hello'', mode = JObj [(''permissionMode'', JStr ''default'')],
      isolate = False, hash = ''mode-hash''\<rparr>"

definition old_state :: AbortRestartState where
  "old_state = \<lparr>wasCreated = True, currentModeHash = Some ''old'', thinking = True\<rparr>"

section \<open>Theorems\<close>

lemma mapPermissionResultToDecision_never_plain_amendment:
  "mapPermissionResultToDecision r \<noteq> Plain approved_execpolicy_amendment"
  by (simp add: mapPermissionResultToDecision_def split: option.splits)

subsection \<open>Association lists\<close>

lemma map_of_delete_same: "map_of (AList.delete k al) k = None"
  by (simp add: delete_conv')

lemma map_of_update_same: "map_of (AList.update k v al) k = Some v"
  by (simp add: update_conv')

lemma map_of_update_other: "k' \<noteq> k \<Longrightarrow> map_of (AList.update k v al) k' = map_of al k'"
  by (simp add: update_conv')

subsection \<open>The handler of decision messages\<close>

lemma permission_result_table:
  "(approved_r response \<and> decision_r response = Some approved_execpolicy_amendment
      \<and> (\<exists>a. execPolicyAmendment_r response = Some a \<and> command a \<noteq> [])
    \<longrightarrow> permission_result response =
          \<lparr>decision = approved_execpolicy_amendment,
           execPolicyAmendment = execPolicyAmendment_r response\<rparr>)
 \<and> (approved_r response \<and> decision_r response = Some approved_for_session
    \<longrightarrow> permission_result response = \<lparr>decision = approved_for_session, execPolicyAmendment = None\<rparr>)
 \<and> (approved_r response
      \<and> \<not> (decision_r response = Some approved_execpolicy_amendment
            \<and> (\<exists>a. execPolicyAmendment_r response = Some a \<and> command a \<noteq> []))
      \<and> decision_r response \<noteq> Some approved_for_session
    \<longrightarrow> permission_result response = \<lparr>decision = approved, execPolicyAmendment = None\<rparr>)
 \<and> (\<not> approved_r response \<and> decision_r response = Some denied
    \<longrightarrow> permission_result response = \<lparr>decision = denied, execPolicyAmendment = None\<rparr>)
 \<and> (\<not> approved_r response \<and> decision_r response \<noteq> Some denied
    \<longrightarrow> permission_result response = \<lparr>decision = abort, execPolicyAmendment = None\<rparr>)"
  by (auto simp: permission_result_def command_length_truthy_def split: option.splits)

lemma permission_handler_found:
  assumes "map_of (pendingRequests s) (normalizeRequestId (id_r response)) = Some p"
  shows "permission_handler now response s =
     (let requestId = normalizeRequestId (id_r response); result = permission_result response in
      s\<lparr>pendingRequests := AList.delete requestId (pendingRequests s),
        pendingWarningTimers := AList.delete requestId (pendingWarningTimers s),
        effects := effects s @ [ResolveCalled requestId result],
        agentState := complete_request now requestId response result (agentState s)\<rparr>)"
  using assms
  by (simp add: permission_handler_def Let_def clearPendingWarning_def updateAgentState_def)

lemma permission_handler_not_found:
  assumes "map_of (pendingRequests s) (normalizeRequestId (id_r response)) = None"
  shows "permission_handler now response s = s"
  using assms by (simp add: permission_handler_def Let_def)

lemma get_property_own:
  assumes "map_of (or_empty (requests a)) k = Some r"
  shows "get_property (requests a) k = OwnProperty r"
  using assms by (cases "requests a") (simp_all add: get_property_def or_empty_def)

lemma get_property_none:
  assumes "map_of (or_empty (requests a)) k = None"
      and "requests a = None \<or> k \<notin> set object_prototype_keys"
  shows "get_property (requests a) k = NoProperty"
  using assms by (cases "requests a") (auto simp: get_property_def or_empty_def)

lemma complete_request_present:
  assumes "map_of (or_empty (requests a)) k = Some r"
  shows "map_of (or_empty (requests (complete_request now k response result a))) k = None"
    and "map_of (or_empty (completedRequests (complete_request now k response result a))) k =
           Some (Completed
             \<lparr>tool = tool r, arguments = arguments r, createdAt = createdAt r,
              completedAt = now,
              status = (if approved_r response then status_approved else status_denied),
              reason = None, decision_c = Some (decision result)\<rparr>)"
  by (simp_all add: complete_request_def get_property_own [OF assms] or_empty_def
      map_of_delete_same map_of_update_same)

lemma complete_request_absent:
  assumes "map_of (or_empty (requests a)) k = None"
      and "requests a = None \<or> k \<notin> set object_prototype_keys"
  shows "complete_request now k response result a = a"
  by (simp add: complete_request_def get_property_none [OF assms])

lemma not_auto_CodexBash_exec1: "shouldAutoApprove mode_default ''CodexBash'' ''exec-1'' = False"
  by code_simp

lemma not_auto_CodexBash_123: "shouldAutoApprove mode_default ''CodexBash'' ''123'' = False"
  by code_simp

lemma decimal_string_123: "decimal_string 123 = ''123''"
  by code_simp

lemma js_String_123: "js_String number_123 = ''123''"
  by (simp add: js_String_def number_123_def Abs_safe_integer_inverse decimal_string_123)

lemma handleToolCall_pending:
  assumes "\<not> shouldAutoApprove (currentPermissionMode s) name (normalizeRequestId i)"
  shows "handleToolCall now i name inp s =
     (let requestId = normalizeRequestId i in
      (s\<lparr>pendingRequests := AList.update requestId
             \<lparr>toolName = name, input = inp, reject = (\<lambda>_. Returns)\<rparr> (pendingRequests s),
          pendingWarningTimers :=
            (if map_of (pendingWarningTimers s) requestId \<noteq> None then pendingWarningTimers s
             else AList.update requestId name (pendingWarningTimers s)),
          agentState := (agentState s)
            \<lparr>requests := Some (AList.update requestId
               \<lparr>tool = name, arguments = inp, createdAt = now\<rparr>
               (or_empty (requests (agentState s))))\<rparr>\<rparr>, None))"
  using assms
  by (simp add: handleToolCall_def Let_def registerPendingRequest_def schedulePendingWarning_def
      addPendingRequestToState_def updateAgentState_def normalizeRequestId_def)

lemma handleToolCall_auto:
  assumes "shouldAutoApprove (currentPermissionMode s) name (normalizeRequestId i)"
  shows "handleToolCall now i name inp s =
     (let requestId = normalizeRequestId i;
          d = (if currentPermissionMode s = mode_yolo then approved_for_session else approved) in
      (s\<lparr>agentState := (agentState s)
            \<lparr>completedRequests := Some (AList.update requestId
               (Completed
                 \<lparr>tool = name, arguments = inp, createdAt = now, completedAt = now,
                  status = status_approved, reason = None, decision_c = Some d\<rparr>)
               (or_empty (completedRequests (agentState s))))\<rparr>\<rparr>,
       Some \<lparr>decision = d, execPolicyAmendment = None\<rparr>))"
  using assms
  by (simp add: handleToolCall_def Let_def updateAgentState_def)

lemma shouldAutoApprove_yolo: "shouldAutoApprove mode_yolo name i"
  by (simp add: shouldAutoApprove_def)

lemma shouldAutoApprove_safe_yolo: "shouldAutoApprove mode_safe_yolo name i"
  by (simp add: shouldAutoApprove_def)

text \<open>
  An id that names a property of \<^verbatim>\<open>Object.prototype\<close> passes the guard without an
  entry of its own: the read finds the inherited function, and a record without the
  fields of a request is written.
\<close>

lemma complete_request_inherited_name:
  "complete_request 9 ''toString''
      \<lparr>id_r = IdString ''toString'', approved_r = True, decision_r = Some approved,
       execPolicyAmendment_r = None\<rparr>
      \<lparr>decision = approved, execPolicyAmendment = None\<rparr>
      \<lparr>requests = Some [], completedRequests = None\<rparr>
     = \<lparr>requests = Some [],
        completedRequests = Some [(''toString'', CompletedBare 9 status_approved approved)]\<rparr>"
  by (simp add: complete_request_def get_property_def object_prototype_keys_def or_empty_def)

text \<open>
  Claim C1, amended. A decision message whose normalized id has a pending entry makes the
  handler call \<^verbatim>\<open>resolve\<close> once, with the result given by the table of the claim
  (approval with the amendment tag and a non-empty command list: the amendment with
  that payload; approval with the session tag: \<open>approved_for_session\<close>; any other
  approval: \<open>approved\<close>; no approval with the tag \<open>denied\<close>: \<open>denied\<close>; any other:
  \<open>abort\<close>), and removes the pending entry and its timer. When the agent state holds a
  request under the id, that request moves to the completed map, with status \<open>approved\<close>
  or \<open>denied\<close> after the approval flag. When it holds none, and either has no map of
  requests at all or the id is not a property name of \<^verbatim>\<open>Object.prototype\<close>, the agent
  state stays as it is. (An id such as \<open>toString\<close> without an entry of its own is left
  out: the read finds the inherited function and the guard lets it pass.)
\<close>

theorem permission_handler_decision:
  assumes "map_of (pendingRequests s) (normalizeRequestId (id_r response)) = Some p"
  shows "(let rid = normalizeRequestId (id_r response);
              s' = permission_handler now response s;
              result = permission_result response in
      effects s' = effects s @ [ResolveCalled rid result]
    \<and> (approved_r response \<and> decision_r response = Some approved_execpolicy_amendment
          \<and> (\<exists>a. execPolicyAmendment_r response = Some a \<and> command a \<noteq> [])
        \<longrightarrow> result = \<lparr>decision = approved_execpolicy_amendment,
                      execPolicyAmendment = execPolicyAmendment_r response\<rparr>)
    \<and> (approved_r response \<and> decision_r response = Some approved_for_session
        \<longrightarrow> result = \<lparr>decision = approved_for_session, execPolicyAmendment = None\<rparr>)
    \<and> (approved_r response
          \<and> \<not> (decision_r response = Some approved_execpolicy_amendment
                \<and> (\<exists>a. execPolicyAmendment_r response = Some a \<and> command a \<noteq> []))
          \<and> decision_r response \<noteq> Some approved_for_session
        \<longrightarrow> result = \<lparr>decision = approved, execPolicyAmendment = None\<rparr>)
    \<and> (\<not> approved_r response \<and> decision_r response = Some denied
        \<longrightarrow> result = \<lparr>decision = denied, execPolicyAmendment = None\<rparr>)
    \<and> (\<not> approved_r response \<and> decision_r response \<noteq> Some denied
        \<longrightarrow> result = \<lparr>decision = abort, execPolicyAmendment = None\<rparr>)
    \<and> map_of (pendingRequests s') rid = None
    \<and> map_of (pendingWarningTimers s') rid = None
    \<and> (\<forall>r. map_of (or_empty (requests (agentState s))) rid = Some r \<longrightarrow>
          map_of (or_empty (requests (agentState s'))) rid = None
        \<and> map_of (or_empty (completedRequests (agentState s'))) rid =
            Some (Completed
              \<lparr>tool = tool r, arguments = arguments r, createdAt = createdAt r,
               completedAt = now,
               status = (if approved_r response then status_approved else status_denied),
               reason = None, decision_c = Some (decision result)\<rparr>))
    \<and> (map_of (or_empty (requests (agentState s))) rid = None
         \<and> (requests (agentState s) = None \<or> rid \<notin> set object_prototype_keys) \<longrightarrow>
          agentState s' = agentState s))"
  unfolding Let_def
  using permission_result_table [of response]
    permission_handler_found [OF assms, of now]
    complete_request_present [of "agentState s" "normalizeRequestId (id_r response)" _ now response "permission_result response"]
    complete_request_absent [of "agentState s" "normalizeRequestId (id_r response)" now response "permission_result response"]
  by (simp add: Let_def map_of_delete_same)

text \<open>
  The theorem at the request \<open>exec-1\<close> of the tests, answered by an approval with the
  amendment \<open>yarn dev\<close>.
\<close>

theorem permission_handler_decision_witness:
  "map_of (pendingRequests
       (fst (handleToolCall 5 (IdString ''exec-1'') ''CodexBash'' JNull (new_handler test_session))))
     (normalizeRequestId (IdString ''exec-1''))
     = Some \<lparr>toolName = ''CodexBash'', input = JNull, reject = (\<lambda>_. Returns)\<rparr>
   \<and> effects (permission_handler 9
        \<lparr>id_r = IdString ''exec-1'', approved_r = True,
         decision_r = Some approved_execpolicy_amendment,
         execPolicyAmendment_r = Some \<lparr>command = [''yarn'', ''dev'']\<rparr>\<rparr>
        (fst (handleToolCall 5 (IdString ''exec-1'') ''CodexBash'' JNull (new_handler test_session))))
     = [ResolveCalled ''exec-1''
          \<lparr>decision = approved_execpolicy_amendment,
           execPolicyAmendment = Some \<lparr>command = [''yarn'', ''dev'']\<rparr>\<rparr>]
   \<and> map_of (or_empty (completedRequests (agentState (permission_handler 9
        \<lparr>id_r = IdString ''exec-1'', approved_r = True,
         decision_r = Some approved_execpolicy_amendment,
         execPolicyAmendment_r = Some \<lparr>command = [''yarn'', ''dev'']\<rparr>\<rparr>
        (fst (handleToolCall 5 (IdString ''exec-1'') ''CodexBash'' JNull (new_handler test_session)))))))
       ''exec-1''
     = Some (Completed
         \<lparr>tool = ''CodexBash'', arguments = JNull, createdAt = 5, completedAt = 9,
          status = status_approved, reason = None,
          decision_c = Some approved_execpolicy_amendment\<rparr>)"
proof -
  let ?s = "fst (handleToolCall 5 (IdString ''exec-1'') ''CodexBash'' JNull (new_handler test_session))"
  let ?r = "\<lparr>id_r = IdString ''exec-1'', approved_r = True,
         decision_r = Some approved_execpolicy_amendment,
         execPolicyAmendment_r = Some \<lparr>command = [''yarn'', ''dev'']\<rparr>\<rparr>"
  have na: "\<not> shouldAutoApprove (currentPermissionMode (new_handler test_session)) ''CodexBash''
              (normalizeRequestId (IdString ''exec-1''))"
    by (simp add: new_handler_def normalizeRequestId_def not_auto_CodexBash_exec1)
  have s: "?s = \<lparr>pendingRequests = [(''exec-1'', \<lparr>toolName = ''CodexBash'', input = JNull, reject = (\<lambda>_. Returns)\<rparr>)],
       pendingWarningTimers = [(''exec-1'', ''CodexBash'')], isResetting = False,
       currentPermissionMode = mode_default,
       agentState = \<lparr>requests = Some [(''exec-1'', \<lparr>tool = ''CodexBash'', arguments = JNull, createdAt = 5\<rparr>)],
                     completedRequests = None\<rparr>,
       effects = []\<rparr>"
    unfolding handleToolCall_pending [OF na]
    by (simp add: Let_def normalizeRequestId_def new_handler_def test_session_def or_empty_def)
  have h: "map_of (pendingRequests ?s) (normalizeRequestId (id_r ?r))
             = Some \<lparr>toolName = ''CodexBash'', input = JNull, reject = (\<lambda>_. Returns)\<rparr>"
    by (simp add: s normalizeRequestId_def)
  show ?thesis
    using h permission_handler_decision [OF h, of 9]
    by (simp add: Let_def s normalizeRequestId_def or_empty_def)
qed

text \<open>
  The claim as it was stated fails where the session has been swapped between request
  and answer: the entry is pending in the handler, the new agent state has no request
  under the id, and nothing is written to the completed map.
\<close>

theorem permission_handler_moves_entry_counterexample:
  "map_of (pendingRequests
       (updateSession test_session
         (fst (handleToolCall 5 (IdString ''exec-1'') ''CodexBash'' JNull (new_handler test_session)))))
     (normalizeRequestId (IdString ''exec-1'')) \<noteq> None
   \<and> map_of (or_empty (completedRequests (agentState (permission_handler 9
        \<lparr>id_r = IdString ''exec-1'', approved_r = True, decision_r = Some approved,
         execPolicyAmendment_r = None\<rparr>
        (updateSession test_session
          (fst (handleToolCall 5 (IdString ''exec-1'') ''CodexBash'' JNull (new_handler test_session))))))))
       ''exec-1'' = None"
proof -
  have na: "\<not> shouldAutoApprove (currentPermissionMode (new_handler test_session)) ''CodexBash''
              (normalizeRequestId (IdString ''exec-1''))"
    by (simp add: new_handler_def normalizeRequestId_def not_auto_CodexBash_exec1)
  show ?thesis
    unfolding handleToolCall_pending [OF na]
    by (simp add: Let_def normalizeRequestId_def new_handler_def
        test_session_def or_empty_def updateSession_def permission_handler_def
        clearPendingWarning_def updateAgentState_def complete_request_def get_property_def)
qed

subsection \<open>Elicitation helpers\<close>

text \<open>
  Claim C5. \<^verbatim>\<open>mapPermissionResultToDecision\<close> returns the amendment wire shape with the
  command list \<open>cmd\<close> exactly when the result carries the amendment tag and a payload whose
  command list is \<open>cmd\<close> and is not empty; an amendment tag with a missing payload or an
  empty command list gives plain \<open>approved\<close>; every other tag is returned as it is.
\<close>

theorem mapPermissionResultToDecision_cases:
  "(mapPermissionResultToDecision r = ExecpolicyAmendmentDecision cmd \<longleftrightarrow>
      decision r = approved_execpolicy_amendment
      \<and> (\<exists>p. execPolicyAmendment r = Some p \<and> command p = cmd \<and> cmd \<noteq> []))
   \<and> (decision r = approved_execpolicy_amendment
        \<and> (execPolicyAmendment r = None \<or> (\<exists>p. execPolicyAmendment r = Some p \<and> command p = []))
      \<longrightarrow> mapPermissionResultToDecision r = Plain approved)
   \<and> (decision r \<noteq> approved_execpolicy_amendment
      \<longrightarrow> mapPermissionResultToDecision r = Plain (decision r))"
  by (auto simp: mapPermissionResultToDecision_def split: option.splits)

text \<open>The three cases of the theorem at the results of the tests and of the spec.\<close>

theorem mapPermissionResultToDecision_cases_witness:
  "mapPermissionResultToDecision
      \<lparr>decision = approved_execpolicy_amendment,
       execPolicyAmendment = Some \<lparr>command = [''yarn'']\<rparr>\<rparr>
     = ExecpolicyAmendmentDecision [''yarn'']
   \<and> mapPermissionResultToDecision
      \<lparr>decision = approved_execpolicy_amendment, execPolicyAmendment = None\<rparr>
     = Plain approved
   \<and> mapPermissionResultToDecision
      \<lparr>decision = approved_execpolicy_amendment,
       execPolicyAmendment = Some \<lparr>command = []\<rparr>\<rparr>
     = Plain approved
   \<and> mapPermissionResultToDecision \<lparr>decision = denied, execPolicyAmendment = None\<rparr>
     = Plain denied"
  using
    mapPermissionResultToDecision_cases
      [of "\<lparr>decision = approved_execpolicy_amendment,
             execPolicyAmendment = Some \<lparr>command = [''yarn'']\<rparr>\<rparr>" "[''yarn'']"]
    mapPermissionResultToDecision_cases
      [of "\<lparr>decision = approved_execpolicy_amendment, execPolicyAmendment = None\<rparr>" "[]"]
    mapPermissionResultToDecision_cases
      [of "\<lparr>decision = approved_execpolicy_amendment,
             execPolicyAmendment = Some \<lparr>command = []\<rparr>\<rparr>" "[]"]
    mapPermissionResultToDecision_cases
      [of "\<lparr>decision = denied, execPolicyAmendment = None\<rparr>" "[]"]
  by simp

lemma compareVersions_release_target:
  assumes "tag_falsy (prereleaseTag target)"
      and "version_triple info = version_triple target"
  shows "compareVersions lc info target = (if tag_falsy (prereleaseTag info) then 0 else - 1)"
  using assms by (simp add: compareVersions_def version_triple_def Let_def)

lemma compareVersions_triple_sign:
  assumes "version_triple info \<noteq> version_triple target"
  shows "(compareVersions lc info target < 0
            \<longleftrightarrow> triple_less (version_triple info) (version_triple target))
       \<and> (compareVersions lc info target > 0
            \<longleftrightarrow> triple_less (version_triple target) (version_triple info))"
  using assms by (auto simp: compareVersions_def version_triple_def triple_less_def)

lemma compareVersions_at_most_cutoff:
  "compareVersions lc info ELICITATION_DECISION_MAX_VERSION \<le> 0 \<longleftrightarrow>
     triple_less (version_triple info) (0, 77, 0) \<or> version_triple info = (0, 77, 0)"
proof -
  have t: "tag_falsy (prereleaseTag ELICITATION_DECISION_MAX_VERSION)"
    by (simp add: ELICITATION_DECISION_MAX_VERSION_def tag_falsy_def)
  have v: "version_triple ELICITATION_DECISION_MAX_VERSION = (0, 77, 0)"
    by (simp add: ELICITATION_DECISION_MAX_VERSION_def version_triple_def)
  show ?thesis
  proof (cases "version_triple info = (0, 77, 0)")
    case True
    then show ?thesis
      using compareVersions_release_target [OF t, of info lc] v by simp
  next
    case False
    then have ne: "version_triple info \<noteq> version_triple ELICITATION_DECISION_MAX_VERSION"
      using v by simp
    have total: "\<not> triple_less (version_triple info) (0, 77, 0)
                   \<longrightarrow> triple_less (0, 77, 0) (version_triple info)"
      using False by (auto simp: triple_less_def version_triple_def)
    have asym: "\<not> (triple_less (version_triple info) (0, 77, 0)
                     \<and> triple_less (0, 77, 0) (version_triple info))"
      by (auto simp: triple_less_def version_triple_def)
    show ?thesis
      using compareVersions_triple_sign [OF ne, of lc] v False total asym by auto
  qed
qed

text \<open>
  Claim C6. An override that is exactly \<open>decision\<close> or \<open>both\<close> is returned whatever the
  version is. Without such an override the style is \<open>both\<close> for an unparsed version,
  \<open>decision\<close> for a parsed version whose triple is at or below 0.77.0, and \<open>both\<close> for
  a parsed version whose triple is above it; the collation of the tags has no part in it.
\<close>

theorem getElicitationResponseStyle_cases:
  "(override = Some ''decision'' \<longrightarrow>
      getElicitationResponseStyle lc info override = style_decision)
 \<and> (override = Some ''both'' \<longrightarrow>
      getElicitationResponseStyle lc info override = style_both)
 \<and> (override \<noteq> Some ''decision'' \<and> override \<noteq> Some ''both'' \<longrightarrow>
      getElicitationResponseStyle lc info override =
        (if \<not> parsed info then style_both
         else if triple_less (version_triple info) (0, 77, 0) \<or> version_triple info = (0, 77, 0)
           then style_decision
         else style_both))"
  using compareVersions_at_most_cutoff [of lc info]
  by (simp add: getElicitationResponseStyle_def isVersionAtMost_def)

text \<open>
  The theorem at 0.77.0, at 0.78.0, at an unparsed version, and at 0.78.0 under each of
  the two overrides.
\<close>

theorem getElicitationResponseStyle_cases_witness:
  "getElicitationResponseStyle code_order_compare
      (parsed_version ''codex-cli 0.77.0'' 0 77 0 None None) None = style_decision
   \<and> getElicitationResponseStyle code_order_compare
      (parsed_version ''codex-cli 0.78.0'' 0 78 0 None None) None = style_both
   \<and> getElicitationResponseStyle code_order_compare (unparsed_version None) None = style_both
   \<and> getElicitationResponseStyle code_order_compare
      (parsed_version ''codex-cli 0.78.0'' 0 78 0 None None) (Some ''decision'') = style_decision
   \<and> getElicitationResponseStyle code_order_compare
      (parsed_version ''codex-cli 0.77.0'' 0 77 0 None None) (Some ''both'') = style_both"
  using
    getElicitationResponseStyle_cases
      [of None code_order_compare "parsed_version ''codex-cli 0.77.0'' 0 77 0 None None"]
    getElicitationResponseStyle_cases
      [of None code_order_compare "parsed_version ''codex-cli 0.78.0'' 0 78 0 None None"]
    getElicitationResponseStyle_cases [of None code_order_compare "unparsed_version None"]
    getElicitationResponseStyle_cases
      [of "Some ''decision''" code_order_compare
          "parsed_version ''codex-cli 0.78.0'' 0 78 0 None None"]
    getElicitationResponseStyle_cases
      [of "Some ''both''" code_order_compare
          "parsed_version ''codex-cli 0.77.0'' 0 77 0 None None"]
  by (simp add: parsed_version_def unparsed_version_def version_triple_def triple_less_def)



subsection \<open>Normalized ids\<close>

lemma digit_value_digit_char: "d < 10 \<Longrightarrow> digit_value (digit_char d) = d"
proof -
  assume "d < 10"
  then have "d \<in> {0, 1, 2, 3, 4, 5, 6, 7, 8, 9}" by auto
  then show ?thesis
    by (auto simp: digit_value_def digit_char_def)
qed

lemma nat_of_digits_snoc: "nat_of_digits (ds @ [c]) = 10 * nat_of_digits ds + digit_value c"
  by (simp add: nat_of_digits_def)

lemma nat_of_digits_digits_of_nat: "nat_of_digits (digits_of_nat n) = n"
proof (induction n rule: digits_of_nat.induct)
  case (1 n)
  show ?case
  proof (cases "n < 10")
    case True
    then show ?thesis
      using digit_value_digit_char [of n]
      by (simp add: digits_of_nat.simps [of n] nat_of_digits_def)
  next
    case False
    then have "nat_of_digits (digits_of_nat (n div 10)) = n div 10"
      using "1.IH" by simp
    then show ?thesis
      using False digit_value_digit_char [of "n mod 10"]
      by (simp add: digits_of_nat.simps [of n] nat_of_digits_snoc)
  qed
qed

lemma decimal_string_reads_back: "0 \<le> n \<Longrightarrow> nat_of_digits (decimal_string n) = nat n"
  by (simp add: decimal_string_def nat_of_digits_digits_of_nat)

lemma digits_of_nat_numeral:
  "digits_of_nat (numeral k) =
     (if (numeral k :: nat) < 10 then [digit_char (numeral k)]
      else digits_of_nat (numeral k div 10) @ [digit_char (numeral k mod 10)])"
  by (rule digits_of_nat.simps)

lemma digits_of_nat_1: "digits_of_nat (Suc 0) = ''1''"
  by (simp add: digits_of_nat.simps [of "Suc 0"] digit_char_def)

lemma decimal_string_1e21:
  "decimal_string 1000000000000000000000 = ''1000000000000000000000''"
  by (simp add: decimal_string_def digits_of_nat_numeral digits_of_nat_1 digit_char_def)

lemma not_auto_CodexBash_1e21: "shouldAutoApprove mode_default ''CodexBash'' ''1e+21'' = False"
  by code_simp

lemma permission_result_id_r [simp]:
  "permission_result (response\<lparr>id_r := i\<rparr>) = permission_result response"
  by (simp add: permission_result_def)

lemma registerPendingRequest_fields:
  "pendingRequests (registerPendingRequest k p s) = AList.update k p (pendingRequests s)"
  "effects (registerPendingRequest k p s) = effects s"
  "agentState (registerPendingRequest k p s) = agentState s"
  by (simp_all add: registerPendingRequest_def schedulePendingWarning_def)

text \<open>
  A call of \<^verbatim>\<open>handleToolCall\<close> that is not approved automatically registers the request
  with \<^verbatim>\<open>registerPendingRequest\<close>, under the normalized id.
\<close>

lemma handleToolCall_registers:
  assumes "\<not> shouldAutoApprove (currentPermissionMode s) name (normalizeRequestId i)"
  shows "pendingRequests (fst (handleToolCall now i name inp s))
           = pendingRequests (registerPendingRequest (normalizeRequestId i)
               \<lparr>toolName = name, input = inp, reject = (\<lambda>_. Returns)\<rparr> s)"
    and "effects (fst (handleToolCall now i name inp s)) = effects s"
    and "snd (handleToolCall now i name inp s) = None"
  by (simp_all add: handleToolCall_pending [OF assms] Let_def registerPendingRequest_fields)

text \<open>
  Claim C2, amended. A decision message resolves the pending entry under its normalized
  id and no other: \<^verbatim>\<open>resolve\<close> is called once, for that id, the entry leaves the table,
  every other entry stays. A request registered under the number \<open>x\<close> is resolved by a
  message whose id is the string \<^verbatim>\<open>String(x)\<close>, and by one whose id is the number \<open>x\<close>;
  for a safe integer, \<^verbatim>\<open>String(x)\<close> is its decimal numeral. A message without a pending
  entry under its normalized id leaves the whole state of the handler as it is: the
  pending table, the timers, the agent state and the trace.
\<close>

theorem permission_handler_normalized_id:
  "(\<forall>p. map_of (pendingRequests s) (normalizeRequestId (id_r response)) = Some p \<longrightarrow>
       effects (permission_handler now response s)
         = effects s @ [ResolveCalled (normalizeRequestId (id_r response)) (permission_result response)]
     \<and> map_of (pendingRequests (permission_handler now response s))
          (normalizeRequestId (id_r response)) = None
     \<and> (\<forall>k. k \<noteq> normalizeRequestId (id_r response) \<longrightarrow>
           map_of (pendingRequests (permission_handler now response s)) k
             = map_of (pendingRequests s) k))
 \<and> (\<forall>i \<in> {IdString (js_String x), IdNumber x}.
       effects (permission_handler now (response\<lparr>id_r := i\<rparr>)
                  (registerPendingRequest (normalizeRequestId (IdNumber x)) q s))
         = effects s @ [ResolveCalled (js_String x) (permission_result response)]
     \<and> map_of (pendingRequests (permission_handler now (response\<lparr>id_r := i\<rparr>)
                  (registerPendingRequest (normalizeRequestId (IdNumber x)) q s)))
          (js_String x) = None)
 \<and> js_String (SafeInteger n) = decimal_string (Rep_safe_integer n)
 \<and> (0 \<le> Rep_safe_integer n \<longrightarrow>
      nat_of_digits (js_String (SafeInteger n)) = nat (Rep_safe_integer n))
 \<and> (map_of (pendingRequests s) (normalizeRequestId (id_r response)) = None \<longrightarrow>
      permission_handler now response s = s)"
proof (intro conjI allI impI ballI)
  fix p
  assume m: "map_of (pendingRequests s) (normalizeRequestId (id_r response)) = Some p"
  show "effects (permission_handler now response s)
         = effects s @ [ResolveCalled (normalizeRequestId (id_r response)) (permission_result response)]"
    by (simp add: permission_handler_found [OF m] Let_def)
  show "map_of (pendingRequests (permission_handler now response s))
          (normalizeRequestId (id_r response)) = None"
    by (simp add: permission_handler_found [OF m] Let_def map_of_delete_same)
  fix k
  assume "k \<noteq> normalizeRequestId (id_r response)"
  then show "map_of (pendingRequests (permission_handler now response s)) k
             = map_of (pendingRequests s) k"
    by (simp add: permission_handler_found [OF m] Let_def)
next
  fix i
  assume i: "i \<in> {IdString (js_String x), IdNumber x}"
  let ?s1 = "registerPendingRequest (normalizeRequestId (IdNumber x)) q s"
  let ?r = "response\<lparr>id_r := i\<rparr>"
  have rid: "normalizeRequestId i = js_String x"
    using i by (auto simp: normalizeRequestId_def)
  have nx: "normalizeRequestId (IdNumber x) = js_String x"
    by (simp add: normalizeRequestId_def)
  have m: "map_of (pendingRequests ?s1) (normalizeRequestId (id_r ?r)) = Some q"
    by (simp add: rid nx registerPendingRequest_fields map_of_update_same)
  show "effects (permission_handler now ?r ?s1)
           = effects s @ [ResolveCalled (js_String x) (permission_result response)]"
    using rid by (simp add: permission_handler_found [OF m] Let_def registerPendingRequest_fields)
  show "map_of (pendingRequests (permission_handler now ?r ?s1)) (js_String x) = None"
    using rid by (simp add: permission_handler_found [OF m] Let_def map_of_delete_same)
next
  show "js_String (SafeInteger n) = decimal_string (Rep_safe_integer n)"
    by (simp add: js_String_def)
next
  assume "0 \<le> Rep_safe_integer n"
  then show "nat_of_digits (js_String (SafeInteger n)) = nat (Rep_safe_integer n)"
    by (simp add: js_String_def decimal_string_reads_back)
next
  assume "map_of (pendingRequests s) (normalizeRequestId (id_r response)) = None"
  then show "permission_handler now response s = s"
    by (rule permission_handler_not_found)
qed

text \<open>
  The theorem at the test of the id normalization: the request is registered under the
  number 123 and answered under the string \<open>123\<close>, or under the number; an answer to a
  handler without pending entries changes nothing.
\<close>

theorem permission_handler_normalized_id_witness:
  "js_String number_123 = ''123''
   \<and> pendingRequests (fst (handleToolCall 5 (IdNumber number_123) ''CodexBash'' ls_input
        (new_handler test_session)))
      = pendingRequests (registerPendingRequest (normalizeRequestId (IdNumber number_123))
          \<lparr>toolName = ''CodexBash'', input = ls_input, reject = (\<lambda>_. Returns)\<rparr>
          (new_handler test_session))
   \<and> effects (permission_handler 9 (approve_123\<lparr>id_r := IdString (js_String number_123)\<rparr>)
        (registerPendingRequest (normalizeRequestId (IdNumber number_123))
          \<lparr>toolName = ''CodexBash'', input = ls_input, reject = (\<lambda>_. Returns)\<rparr>
          (new_handler test_session)))
      = [ResolveCalled ''123'' \<lparr>decision = approved, execPolicyAmendment = None\<rparr>]
   \<and> effects (permission_handler 9 (approve_123\<lparr>id_r := IdNumber number_123\<rparr>)
        (registerPendingRequest (normalizeRequestId (IdNumber number_123))
          \<lparr>toolName = ''CodexBash'', input = ls_input, reject = (\<lambda>_. Returns)\<rparr>
          (new_handler test_session)))
      = [ResolveCalled ''123'' \<lparr>decision = approved, execPolicyAmendment = None\<rparr>]
   \<and> map_of (pendingRequests (permission_handler 9 approve_123
        (registerPendingRequest (normalizeRequestId (IdNumber number_123))
          \<lparr>toolName = ''CodexBash'', input = ls_input, reject = (\<lambda>_. Returns)\<rparr>
          (new_handler test_session))))
        ''123'' = None
   \<and> 0 \<le> Rep_safe_integer (Abs_safe_integer 123)
   \<and> nat_of_digits (js_String number_123) = 123
   \<and> map_of (pendingRequests (new_handler test_session)) (normalizeRequestId (id_r approve_123))
      = None
   \<and> permission_handler 9 approve_123 (new_handler test_session) = new_handler test_session"
proof -
  let ?s0 = "new_handler test_session :: unit handler_state"
  let ?q = "\<lparr>toolName = ''CodexBash'', input = ls_input, reject = (\<lambda>_. Returns)\<rparr>"
  let ?s1 = "registerPendingRequest (normalizeRequestId (IdNumber number_123)) ?q ?s0"
  have nid: "normalizeRequestId (IdNumber number_123) = ''123''"
    by (simp add: normalizeRequestId_def js_String_123)
  have na: "\<not> shouldAutoApprove (currentPermissionMode ?s0) ''CodexBash''
               (normalizeRequestId (IdNumber number_123))"
    by (simp add: new_handler_def nid not_auto_CodexBash_123)
  have rid: "normalizeRequestId (id_r approve_123) = ''123''"
    by (simp add: approve_123_def normalizeRequestId_def)
  have res: "permission_result approve_123 = \<lparr>decision = approved, execPolicyAmendment = None\<rparr>"
    by (simp add: permission_result_def approve_123_def)
  have m1: "map_of (pendingRequests ?s1) (normalizeRequestId (id_r approve_123)) = Some ?q"
    by (simp add: rid nid registerPendingRequest_fields map_of_update_same)
  have m0: "map_of (pendingRequests ?s0) (normalizeRequestId (id_r approve_123)) = None"
    by (simp add: new_handler_def)
  have e0: "effects ?s0 = []"
    by (simp add: new_handler_def)
  have e1: "effects ?s1 = []"
    by (simp add: registerPendingRequest_fields e0)
  have rep: "Rep_safe_integer (Abs_safe_integer 123) = 123"
    by (simp add: Abs_safe_integer_inverse)
  have pos: "0 \<le> Rep_safe_integer (Abs_safe_integer 123)"
    by (simp add: rep)
  have sn: "SafeInteger (Abs_safe_integer 123) = number_123"
    by (simp add: number_123_def)
  note t0 = permission_handler_normalized_id
        [of ?s0 approve_123 9 number_123 ?q "Abs_safe_integer 123"]
  note t1 = permission_handler_normalized_id
        [of ?s1 approve_123 9 number_123 ?q "Abs_safe_integer 123"]
  from t1 m1 have a: "map_of (pendingRequests (permission_handler 9 approve_123 ?s1))
          (normalizeRequestId (id_r approve_123)) = None"
    by blast
  from t0 have b: "\<forall>i \<in> {IdString (js_String number_123), IdNumber number_123}.
       effects (permission_handler 9 (approve_123\<lparr>id_r := i\<rparr>) ?s1)
         = effects ?s0 @ [ResolveCalled (js_String number_123) (permission_result approve_123)]"
    by blast
  from t0 pos have c: "nat_of_digits (js_String (SafeInteger (Abs_safe_integer 123)))
        = nat (Rep_safe_integer (Abs_safe_integer 123))"
    by blast
  from t0 m0 have d: "permission_handler 9 approve_123 ?s0 = ?s0"
    by blast
  show ?thesis
    using a b c d m0 pos handleToolCall_registers(1) [OF na, of 5 ls_input]
    by (simp add: js_String_123 rid res e0 sn rep)
qed

text \<open>
  The claim as it was stated fails from \<open>10\<^sup>2\<^sup>1\<close> on, where \<^verbatim>\<open>String\<close> prints the
  exponent form: the request registered under the number \<open>10\<^sup>2\<^sup>1\<close> is pending under
  \<open>1e+21\<close>, and the message whose id is the decimal numeral of \<open>10\<^sup>2\<^sup>1\<close> resolves nothing
  and leaves the request pending.
\<close>

theorem permission_handler_decimal_id_counterexample:
  "normalizeRequestId (IdNumber number_1e21) = ''1e+21''
   \<and> decimal_string 1000000000000000000000 = ''1000000000000000000000''
   \<and> snd (handleToolCall 5 (IdNumber number_1e21) ''CodexBash'' ls_input
            (new_handler test_session)) = None
   \<and> effects (permission_handler 9
        (approve_123\<lparr>id_r := IdString (decimal_string 1000000000000000000000)\<rparr>)
        (fst (handleToolCall 5 (IdNumber number_1e21) ''CodexBash'' ls_input
               (new_handler test_session)))) = []
   \<and> map_of (pendingRequests (permission_handler 9
        (approve_123\<lparr>id_r := IdString (decimal_string 1000000000000000000000)\<rparr>)
        (fst (handleToolCall 5 (IdNumber number_1e21) ''CodexBash'' ls_input
               (new_handler test_session)))))
        ''1e+21''
      = Some \<lparr>toolName = ''CodexBash'', input = ls_input, reject = (\<lambda>_. Returns)\<rparr>"
proof -
  let ?s0 = "new_handler test_session :: unit handler_state"
  let ?s1 = "fst (handleToolCall 5 (IdNumber number_1e21) ''CodexBash'' ls_input ?s0)"
  let ?r = "approve_123\<lparr>id_r := IdString (decimal_string 1000000000000000000000)\<rparr>"
  have nid: "normalizeRequestId (IdNumber number_1e21) = ''1e+21''"
    by (simp add: normalizeRequestId_def js_String_def number_1e21_def)
  have na: "\<not> shouldAutoApprove (currentPermissionMode ?s0) ''CodexBash''
               (normalizeRequestId (IdNumber number_1e21))"
    by (simp add: new_handler_def nid not_auto_CodexBash_1e21)
  have p1: "pendingRequests ?s1
      = [(''1e+21'', \<lparr>toolName = ''CodexBash'', input = ls_input, reject = (\<lambda>_. Returns)\<rparr>)]"
    unfolding handleToolCall_registers(1) [OF na]
    by (simp add: nid registerPendingRequest_fields new_handler_def)
  have e1: "effects ?s1 = []"
    unfolding handleToolCall_registers(2) [OF na]
    by (simp add: new_handler_def)
  have rid: "normalizeRequestId (id_r ?r) = ''1000000000000000000000''"
    by (simp add: normalizeRequestId_def decimal_string_1e21)
  have m: "map_of (pendingRequests ?s1) (normalizeRequestId (id_r ?r)) = None"
    unfolding rid p1 by simp
  have same: "permission_handler 9 ?r ?s1 = ?s1"
    by (rule permission_handler_not_found [OF m])
  show ?thesis
    unfolding same
    using nid handleToolCall_registers(3) [OF na, of 5 ls_input]
    by (simp add: p1 e1 decimal_string_1e21)
qed

subsection \<open>Automatic approval\<close>

lemma auto_change_title_default:
  "shouldAutoApprove mode_default ''happy__change_title'' ''call-7'' = True"
  by code_simp

lemma auto_save_memory_id_read_only:
  "shouldAutoApprove mode_read_only ''CodexPatch'' ''save_memory-3'' = True"
  by code_simp

lemma not_auto_CodexPatch_read_only:
  "shouldAutoApprove mode_read_only ''CodexPatch'' ''call-8'' = False"
  by code_simp

text \<open>
  A name that spells \<open>think\<close> with the KELVIN SIGN for its last letter is approved as
  \<open>think\<close> is: lower-casing turns the sign into \<open>k\<close>.
\<close>

lemma auto_think_kelvin_sign:
  "shouldAutoApprove mode_default (''thin'' @ [CHR 0xE2, CHR 0x84, CHR 0xAA]) ''call-9'' = True"
  by code_simp

text \<open>
  Claim C8. In the mode \<open>yolo\<close> every call of \<^verbatim>\<open>handleToolCall\<close> is resolved by the call
  itself with the decision \<open>approved_for_session\<close> and writes a completed record of that
  decision; the pending table, the timers, the trace of the promise callbacks and the
  requests shown to the operator in the agent state stay as they were.
\<close>

theorem handleToolCall_yolo:
  assumes "currentPermissionMode s = mode_yolo"
  shows "snd (handleToolCall now i name inp s)
           = Some \<lparr>decision = approved_for_session, execPolicyAmendment = None\<rparr>
       \<and> map_of (or_empty (completedRequests (agentState (fst (handleToolCall now i name inp s)))))
            (normalizeRequestId i)
           = Some (Completed
               \<lparr>tool = name, arguments = inp, createdAt = now, completedAt = now,
                status = status_approved, reason = None,
                decision_c = Some approved_for_session\<rparr>)
       \<and> pendingRequests (fst (handleToolCall now i name inp s)) = pendingRequests s
       \<and> pendingWarningTimers (fst (handleToolCall now i name inp s)) = pendingWarningTimers s
       \<and> requests (agentState (fst (handleToolCall now i name inp s))) = requests (agentState s)
       \<and> effects (fst (handleToolCall now i name inp s)) = effects s"
proof -
  have a: "shouldAutoApprove (currentPermissionMode s) name (normalizeRequestId i)"
    using assms by (simp add: shouldAutoApprove_yolo)
  show ?thesis
    using assms
    by (simp add: handleToolCall_auto [OF a] Let_def or_empty_def map_of_update_same)
qed

text \<open>The theorem at the test of the mode \<open>yolo\<close>: the call \<open>tool-1\<close> of \<open>CodexBash\<close>.\<close>

theorem handleToolCall_yolo_witness:
  "currentPermissionMode (setPermissionMode mode_yolo (new_handler test_session)) = mode_yolo
   \<and> snd (handleToolCall 5 (IdString ''tool-1'') ''CodexBash'' ls_input
            (setPermissionMode mode_yolo (new_handler test_session)))
       = Some \<lparr>decision = approved_for_session, execPolicyAmendment = None\<rparr>
   \<and> map_of (or_empty (completedRequests (agentState
          (fst (handleToolCall 5 (IdString ''tool-1'') ''CodexBash'' ls_input
                 (setPermissionMode mode_yolo (new_handler test_session)))))))
        ''tool-1''
       = Some (Completed
           \<lparr>tool = ''CodexBash'', arguments = ls_input, createdAt = 5, completedAt = 5,
            status = status_approved, reason = None,
            decision_c = Some approved_for_session\<rparr>)
   \<and> pendingRequests (fst (handleToolCall 5 (IdString ''tool-1'') ''CodexBash'' ls_input
          (setPermissionMode mode_yolo (new_handler test_session)))) = []
   \<and> pendingWarningTimers (fst (handleToolCall 5 (IdString ''tool-1'') ''CodexBash'' ls_input
          (setPermissionMode mode_yolo (new_handler test_session)))) = []
   \<and> requests (agentState (fst (handleToolCall 5 (IdString ''tool-1'') ''CodexBash'' ls_input
          (setPermissionMode mode_yolo (new_handler test_session))))) = None"
proof -
  let ?s = "setPermissionMode mode_yolo (new_handler test_session) :: unit handler_state"
  have m: "currentPermissionMode ?s = mode_yolo"
    by (simp add: setPermissionMode_def)
  have f: "pendingRequests ?s = []" "pendingWarningTimers ?s = []"
    "requests (agentState ?s) = None"
    by (simp_all add: setPermissionMode_def new_handler_def test_session_def)
  show ?thesis
    using m handleToolCall_yolo [OF m, of 5 "IdString ''tool-1''" "''CodexBash''" ls_input]
    by (simp add: f normalizeRequestId_def)
qed

text \<open>
  Claim C10. A call that is approved automatically in a mode other than \<open>yolo\<close> is
  resolved with the plain decision \<open>approved\<close> and writes a completed record with the
  status \<open>approved\<close> and that decision. The mode \<open>safe-yolo\<close> approves every call in
  this way.
\<close>

theorem handleToolCall_auto_approved_plain:
  assumes "shouldAutoApprove (currentPermissionMode s) name (normalizeRequestId i)"
      and "currentPermissionMode s \<noteq> mode_yolo"
  shows "snd (handleToolCall now i name inp s)
           = Some \<lparr>decision = approved, execPolicyAmendment = None\<rparr>
       \<and> map_of (or_empty (completedRequests (agentState (fst (handleToolCall now i name inp s)))))
            (normalizeRequestId i)
           = Some (Completed
               \<lparr>tool = name, arguments = inp, createdAt = now, completedAt = now,
                status = status_approved, reason = None, decision_c = Some approved\<rparr>)
       \<and> shouldAutoApprove mode_safe_yolo name (normalizeRequestId i)"
  using assms(2)
  by (simp add: handleToolCall_auto [OF assms(1)] Let_def or_empty_def map_of_update_same
      shouldAutoApprove_safe_yolo)

text \<open>
  The theorem in the mode \<open>safe-yolo\<close>, at the tool \<open>happy__change_title\<close> in the default
  mode, and at a call id that contains \<open>save_memory\<close> in the mode \<open>read-only\<close>, for a tool
  that the mode would not approve by itself.
\<close>

theorem handleToolCall_auto_approved_plain_witness:
  "shouldAutoApprove (currentPermissionMode (setPermissionMode mode_safe_yolo (new_handler test_session)))
       ''CodexBash'' (normalizeRequestId (IdString ''tool-1''))
   \<and> currentPermissionMode (setPermissionMode mode_safe_yolo (new_handler test_session)) \<noteq> mode_yolo
   \<and> snd (handleToolCall 5 (IdString ''tool-1'') ''CodexBash'' ls_input
            (setPermissionMode mode_safe_yolo (new_handler test_session)))
       = Some \<lparr>decision = approved, execPolicyAmendment = None\<rparr>
   \<and> shouldAutoApprove (currentPermissionMode (new_handler test_session))
       ''happy__change_title'' (normalizeRequestId (IdString ''call-7''))
   \<and> snd (handleToolCall 5 (IdString ''call-7'') ''happy__change_title'' JNull
            (new_handler test_session))
       = Some \<lparr>decision = approved, execPolicyAmendment = None\<rparr>
   \<and> map_of (or_empty (completedRequests (agentState
          (fst (handleToolCall 5 (IdString ''call-7'') ''happy__change_title'' JNull
                 (new_handler test_session))))))
        ''call-7''
       = Some (Completed
           \<lparr>tool = ''happy__change_title'', arguments = JNull, createdAt = 5,
            completedAt = 5, status = status_approved, reason = None,
            decision_c = Some approved\<rparr>)
   \<and> \<not> shouldAutoApprove mode_read_only ''CodexPatch'' ''call-8''
   \<and> snd (handleToolCall 5 (IdString ''save_memory-3'') ''CodexPatch'' JNull
            (setPermissionMode mode_read_only (new_handler test_session)))
       = Some \<lparr>decision = approved, execPolicyAmendment = None\<rparr>"
proof -
  let ?s0 = "new_handler test_session :: unit handler_state"
  let ?sy = "setPermissionMode mode_safe_yolo ?s0"
  let ?sr = "setPermissionMode mode_read_only ?s0"
  have my: "currentPermissionMode ?sy = mode_safe_yolo"
    and mr: "currentPermissionMode ?sr = mode_read_only"
    and m0: "currentPermissionMode ?s0 = mode_default"
    by (simp_all add: setPermissionMode_def new_handler_def)
  have ay: "shouldAutoApprove (currentPermissionMode ?sy) ''CodexBash''
              (normalizeRequestId (IdString ''tool-1''))"
    by (simp add: my shouldAutoApprove_safe_yolo)
  have ny: "currentPermissionMode ?sy \<noteq> mode_yolo"
    by (simp add: my)
  have a0: "shouldAutoApprove (currentPermissionMode ?s0) ''happy__change_title''
              (normalizeRequestId (IdString ''call-7''))"
    by (simp add: m0 normalizeRequestId_def auto_change_title_default)
  have n0: "currentPermissionMode ?s0 \<noteq> mode_yolo"
    by (simp add: m0)
  have ar: "shouldAutoApprove (currentPermissionMode ?sr) ''CodexPatch''
              (normalizeRequestId (IdString ''save_memory-3''))"
    by (simp add: mr normalizeRequestId_def auto_save_memory_id_read_only)
  have nr: "currentPermissionMode ?sr \<noteq> mode_yolo"
    by (simp add: mr)
  have nid: "normalizeRequestId (IdString ''call-7'') = ''call-7''"
    by (simp add: normalizeRequestId_def)
  show ?thesis
    using ay ny a0
      handleToolCall_auto_approved_plain [OF ay ny, of 5 ls_input]
      handleToolCall_auto_approved_plain [OF a0 n0, of 5 JNull]
      handleToolCall_auto_approved_plain [OF ar nr, of 5 JNull]
    by (simp add: nid not_auto_CodexPatch_read_only)
qed

subsection \<open>reset\<close>

lemma reset_with_guard: "isResetting s \<Longrightarrow> reset_with rst now s = s"
  by (simp add: reset_with_def)

lemma reset_guard: "isResetting s \<Longrightarrow> reset now s = s"
  by (simp add: reset_def reset_with_guard)

text \<open>
  Inside the loop the guard is up: a callback that calls a guarded \<^verbatim>\<open>reset\<close> gets the
  handler back as it was.
\<close>

lemma run_callback_guarded:
  assumes "\<And>t s'. isResetting s' \<Longrightarrow> rst t s' = s'"
      and "isResetting s"
  shows "run_callback rst c s = s"
  using assms(2) by (induction c arbitrary: s) (simp_all add: assms(1))

lemma reject_all_unfolded:
  assumes "\<And>t s'. isResetting s' \<Longrightarrow> rst t s' = s'"
      and "isResetting s"
  shows "reject_all rst xs s =
     s\<lparr>pendingWarningTimers := fold (\<lambda>e t. AList.delete (fst e) t) xs (pendingWarningTimers s),
       effects := effects s @ concat (map reject_events xs)\<rparr>"
  using assms(2)
proof (induction xs arbitrary: s)
  case Nil
  then show ?case by simp
next
  case (Cons e xs)
  obtain k p where e: "e = (k, p)" by (cases e)
  let ?s2 = "s\<lparr>pendingWarningTimers := AList.delete k (pendingWarningTimers s),
               effects := effects s @ [RejectCalled k ''Session reset'']\<rparr>"
  have g2: "isResetting ?s2"
    using Cons.prems by simp
  have rc: "run_callback rst (reject p ''Session reset'') ?s2 = ?s2"
    by (rule run_callback_guarded [OF assms(1) g2])
  show ?case
  proof (cases "thrown (reject p ''Session reset'')")
    case None
    then show ?thesis
      unfolding e using Cons.IH [OF g2]
      by (simp add: Let_def rc clearPendingWarning_def reject_events_def)
  next
    case (Some err)
    have g3: "isResetting (?s2\<lparr>effects := effects ?s2 @ [RejectErrorCaught k err]\<rparr>)"
      using g2 by simp
    show ?thesis
      unfolding e using Some Cons.IH [OF g3]
      by (simp add: Let_def rc clearPendingWarning_def reject_events_def)
  qed
qed

lemma reset_with_unfolded:
  assumes "\<And>t s'. isResetting s' \<Longrightarrow> rst t s' = s'"
      and "\<not> isResetting s"
  shows "reset_with rst now s =
     s\<lparr>pendingRequests := [],
       pendingWarningTimers :=
         fold (\<lambda>e t. AList.delete (fst e) t) (pendingRequests s) (pendingWarningTimers s),
       effects := effects s @ concat (map reject_events (pendingRequests s)),
       agentState := cancel_requests now (agentState s)\<rparr>"
proof -
  have g: "isResetting (s\<lparr>isResetting := True, pendingRequests := []\<rparr>)"
    by simp
  show ?thesis
    using assms(2)
    by (simp add: reset_with_def Let_def reject_all_unfolded [OF assms(1) g] updateAgentState_def)
qed

lemma reset_unfolded:
  assumes "\<not> isResetting s"
  shows "reset now s =
     s\<lparr>pendingRequests := [],
       pendingWarningTimers :=
         fold (\<lambda>e t. AList.delete (fst e) t) (pendingRequests s) (pendingWarningTimers s),
       effects := effects s @ concat (map reject_events (pendingRequests s)),
       agentState := cancel_requests now (agentState s)\<rparr>"
  unfolding reset_def
  by (rule reset_with_unfolded [OF reset_with_guard assms])

text \<open>The definition of \<open>reset\<close> solves the recursive equation of the source.\<close>

lemma reset_recursion: "reset now s = reset_with reset now s"
proof (cases "isResetting s")
  case True
  then show ?thesis by (simp add: reset_guard reset_with_guard)
next
  case False
  show ?thesis
    unfolding reset_unfolded [OF False]
    by (rule reset_with_unfolded [OF reset_guard False, symmetric])
qed

lemma map_of_fold_delete:
  "map_of (fold (\<lambda>e t. AList.delete (fst e) t) xs t0) k =
     (if k \<in> fst ` set xs then None else map_of t0 k)"
proof (induction xs arbitrary: t0)
  case Nil
  then show ?case by simp
next
  case (Cons e xs)
  show ?case
    by (auto simp: Cons.IH delete_conv')
qed

lemma count_reject_events:
  "count_list (concat (map reject_events xs)) (RejectCalled k ''Session reset'')
     = count_list (map fst xs) k"
proof (induction xs)
  case Nil
  then show ?case by simp
next
  case (Cons e xs)
  obtain j p where e: "e = (j, p)" by (cases e)
  show ?case
    unfolding e using Cons.IH
    by (cases "thrown (reject p ''Session reset'')") (simp_all add: reject_events_def)
qed

lemma count_list_distinct: "distinct ys \<Longrightarrow> y \<in> set ys \<Longrightarrow> count_list ys y = 1"
  by (induction ys) auto

lemma map_of_js_assign_other: "k \<noteq> j \<Longrightarrow> map_of (js_assign j v al) k = map_of al k"
  by (simp add: js_assign_def update_conv')

lemma map_of_js_assign_same:
  "j \<noteq> ''__proto__'' \<or> map_of al j \<noteq> None \<Longrightarrow> map_of (js_assign j v al) j = Some v"
  by (auto simp: js_assign_def update_conv')

lemma map_of_js_assign_proto:
  "map_of al ''__proto__'' = None \<Longrightarrow> map_of (js_assign j v al) ''__proto__'' = None"
  by (simp add: js_assign_def update_conv')

lemma map_of_fold_cancel_out:
  assumes "k \<notin> fst ` set xs"
  shows "map_of (fold (\<lambda>(requestId, req) acc. js_assign requestId (cancel_entry now req) acc)
                     xs acc0) k = map_of acc0 k"
  using assms
proof (induction xs arbitrary: acc0)
  case Nil
  then show ?case by simp
next
  case (Cons f fs)
  then show ?case by (cases f) (auto simp: map_of_js_assign_other)
qed

lemma map_of_fold_cancel_in:
  assumes "k \<in> fst ` set xs"
      and "k \<noteq> ''__proto__'' \<or> map_of acc0 k \<noteq> None"
  shows "\<exists>r. (k, r) \<in> set xs \<and>
           map_of (fold (\<lambda>(requestId, req) acc. js_assign requestId (cancel_entry now req) acc)
                     xs acc0) k = Some (cancel_entry now r)"
  using assms
proof (induction xs arbitrary: acc0)
  case Nil
  then show ?case by simp
next
  case (Cons e xs)
  obtain j q where e: "e = (j, q)" by (cases e)
  show ?case
  proof (cases "k \<in> fst ` set xs")
    case True
    have "k \<noteq> ''__proto__'' \<or> map_of (js_assign j (cancel_entry now q) acc0) k \<noteq> None"
    proof (cases "k = j")
      case True
      then show ?thesis
        using Cons.prems(2) by (auto simp: map_of_js_assign_same)
    next
      case False
      then show ?thesis
        using Cons.prems(2) by (simp add: map_of_js_assign_other)
    qed
    then show ?thesis
      using Cons.IH [OF True, of "js_assign j (cancel_entry now q) acc0"] e by auto
  next
    case False
    then have kj: "k = j" using Cons.prems(1) e by auto
    have "map_of (js_assign j (cancel_entry now q) acc0) j = Some (cancel_entry now q)"
      using Cons.prems(2) kj by (auto simp: map_of_js_assign_same)
    then show ?thesis
      using kj e map_of_fold_cancel_out [OF False] by auto
  qed
qed

lemma map_of_fold_cancel_proto:
  assumes "map_of acc0 ''__proto__'' = None"
  shows "map_of (fold (\<lambda>(requestId, req) acc. js_assign requestId (cancel_entry now req) acc)
                     xs acc0) ''__proto__'' = None"
  using assms
proof (induction xs arbitrary: acc0)
  case Nil
  then show ?case by simp
next
  case (Cons f fs)
  then show ?case by (cases f) (simp add: map_of_js_assign_proto)
qed

lemma cancel_requests_empty:
  "cancel_requests later (cancel_requests now a) = cancel_requests now a"
  by (simp add: cancel_requests_def Let_def or_empty_def)

lemma reset_reset:
  assumes "\<not> isResetting s"
  shows "reset later (reset now s) = reset now s"
proof -
  have n: "\<not> isResetting (reset now s)"
    using assms by (simp add: reset_unfolded)
  show ?thesis
    unfolding reset_unfolded [OF n]
    using assms by (simp add: reset_unfolded cancel_requests_empty)
qed

text \<open>
  What \<^verbatim>\<open>reset\<close> does, apart from a request under the id \<open>__proto__\<close>. A call that finds
  a reset under way changes nothing. Any other call empties the pending table and, for
  each entry of its snapshot in turn, clears the timer and calls \<^verbatim>\<open>reject\<close> with the error
  \<open>Session reset\<close>; a call of \<^verbatim>\<open>reset\<close> from the callback returns at the guard, a callback
  that throws adds the caught error to the trace, and the loop goes on with the next
  entry. With the keys of the table distinct, each pending id is rejected once. Every
  request recorded in the agent state under an id other than \<open>__proto__\<close> (or under
  \<open>__proto__\<close> when the completed map has a property of that name already) ends in the
  completed map with status \<open>canceled\<close> and the reason \<open>Session reset\<close>, the other
  completed records stay, and the map of requests is empty. The guard is down again at
  the end, and a reset after the reset changes nothing.
\<close>

lemma reset_cancels:
  "(isResetting s \<longrightarrow> reset now s = s)
 \<and> (\<not> isResetting s \<longrightarrow>
      effects (reset now s) = effects s @ concat (map reject_events (pendingRequests s))
    \<and> (\<forall>e \<in> set (pendingRequests s).
          RejectCalled (fst e) ''Session reset'' \<in> set (reject_events e))
    \<and> (distinct (map fst (pendingRequests s)) \<longrightarrow>
         (\<forall>k \<in> fst ` set (pendingRequests s).
            count_list (effects (reset now s)) (RejectCalled k ''Session reset'')
              = count_list (effects s) (RejectCalled k ''Session reset'') + 1))
    \<and> pendingRequests (reset now s) = []
    \<and> (\<forall>k \<in> fst ` set (pendingRequests s). map_of (pendingWarningTimers (reset now s)) k = None)
    \<and> requests (agentState (reset now s)) = Some []
    \<and> (\<forall>k \<in> fst ` set (or_empty (requests (agentState s))).
          k \<noteq> ''__proto__'' \<or> map_of (or_empty (completedRequests (agentState s))) k \<noteq> None \<longrightarrow>
          (\<exists>r. (k, r) \<in> set (or_empty (requests (agentState s)))
             \<and> map_of (or_empty (completedRequests (agentState (reset now s)))) k
                 = Some (Completed
                     \<lparr>tool = tool r, arguments = arguments r, createdAt = createdAt r,
                      completedAt = now, status = status_canceled,
                      reason = Some ''Session reset'', decision_c = None\<rparr>)))
    \<and> (\<forall>k. k \<notin> fst ` set (or_empty (requests (agentState s))) \<longrightarrow>
          map_of (or_empty (completedRequests (agentState (reset now s)))) k
            = map_of (or_empty (completedRequests (agentState s))) k)
    \<and> \<not> isResetting (reset now s)
    \<and> reset later (reset now s) = reset now s)"
proof (intro conjI impI ballI allI)
  assume "isResetting s"
  then show "reset now s = s" by (rule reset_guard)
next
  assume n: "\<not> isResetting s"
  show "effects (reset now s) = effects s @ concat (map reject_events (pendingRequests s))"
    by (simp add: reset_unfolded [OF n])
  show "pendingRequests (reset now s) = []"
    by (simp add: reset_unfolded [OF n])
  show "requests (agentState (reset now s)) = Some []"
    by (simp add: reset_unfolded [OF n] cancel_requests_def Let_def)
  show "\<not> isResetting (reset now s)"
    using n by (simp add: reset_unfolded [OF n])
  show "reset later (reset now s) = reset now s"
    by (rule reset_reset [OF n])
next
  fix e
  assume "e \<in> set (pendingRequests s)"
  show "RejectCalled (fst e) ''Session reset'' \<in> set (reject_events e)"
    by (cases e) (simp add: reject_events_def)
next
  fix k
  assume n: "\<not> isResetting s" and d: "distinct (map fst (pendingRequests s))"
    and k: "k \<in> fst ` set (pendingRequests s)"
  have "count_list (map fst (pendingRequests s)) k = 1"
    using d k by (simp add: count_list_distinct)
  then show "count_list (effects (reset now s)) (RejectCalled k ''Session reset'')
              = count_list (effects s) (RejectCalled k ''Session reset'') + 1"
    by (simp add: reset_unfolded [OF n] count_reject_events)
next
  fix k
  assume n: "\<not> isResetting s" and k: "k \<in> fst ` set (pendingRequests s)"
  then show "map_of (pendingWarningTimers (reset now s)) k = None"
    by (simp add: reset_unfolded [OF n] map_of_fold_delete)
next
  fix k
  assume n: "\<not> isResetting s" and k: "k \<in> fst ` set (or_empty (requests (agentState s)))"
    and p: "k \<noteq> ''__proto__'' \<or> map_of (or_empty (completedRequests (agentState s))) k \<noteq> None"
  obtain r where r: "(k, r) \<in> set (or_empty (requests (agentState s)))"
    and m: "map_of (fold (\<lambda>(requestId, req) acc. js_assign requestId (cancel_entry now req) acc)
                     (or_empty (requests (agentState s)))
                     (or_empty (completedRequests (agentState s)))) k = Some (cancel_entry now r)"
    using map_of_fold_cancel_in [OF k p] by blast
  show "\<exists>r. (k, r) \<in> set (or_empty (requests (agentState s)))
             \<and> map_of (or_empty (completedRequests (agentState (reset now s)))) k
                 = Some (Completed
                     \<lparr>tool = tool r, arguments = arguments r, createdAt = createdAt r,
                      completedAt = now, status = status_canceled,
                      reason = Some ''Session reset'', decision_c = None\<rparr>)"
    using r m
    by (intro exI [of _ r])
       (simp add: reset_unfolded [OF n] cancel_requests_def Let_def or_empty_def cancel_entry_def)
next
  fix k
  assume n: "\<not> isResetting s" and k: "k \<notin> fst ` set (or_empty (requests (agentState s)))"
  show "map_of (or_empty (completedRequests (agentState (reset now s)))) k
            = map_of (or_empty (completedRequests (agentState s))) k"
    using map_of_fold_cancel_out [OF k]
    by (simp add: reset_unfolded [OF n] cancel_requests_def Let_def or_empty_def)
qed

lemma not_auto_CodexBash_proto:
  "shouldAutoApprove mode_default ''CodexBash'' ''__proto__'' = False"
  by code_simp

text \<open>
  The handler with the pending requests \<open>a\<close> and \<open>b\<close>, where the \<^verbatim>\<open>reject\<close> of \<open>a\<close>
  calls \<^verbatim>\<open>reset()\<close> at the time 7 and then throws: the nested call returns at the guard,
  both requests are rejected once, the error is caught, and the records are canceled by
  the outer call, at its time 9.
\<close>

lemma reset_two_pending:
  "effects (reset 9 two_pending)
     = [RejectCalled ''a'' ''Session reset'', RejectErrorCaught ''a'' ''boom'',
        RejectCalled ''b'' ''Session reset'']
   \<and> pendingRequests (reset 9 two_pending) = []
   \<and> pendingWarningTimers (reset 9 two_pending) = []
   \<and> requests (agentState (reset 9 two_pending)) = Some []
   \<and> map_of (or_empty (completedRequests (agentState (reset 9 two_pending)))) ''a''
       = Some (Completed
           \<lparr>tool = ''CodexBash'', arguments = JNull, createdAt = 5, completedAt = 9,
            status = status_canceled, reason = Some ''Session reset'', decision_c = None\<rparr>)
   \<and> map_of (or_empty (completedRequests (agentState (reset 9 two_pending)))) ''b''
       = Some (Completed
           \<lparr>tool = ''CodexPatch'', arguments = JNull, createdAt = 6, completedAt = 9,
            status = status_canceled, reason = Some ''Session reset'', decision_c = None\<rparr>)
   \<and> \<not> isResetting (reset 9 two_pending)
   \<and> reset 12 (reset 9 two_pending) = reset 9 two_pending"
proof -
  have n: "\<not> isResetting two_pending"
    by (simp add: two_pending_def)
  have r: "reset 12 (reset 9 two_pending) = reset 9 two_pending"
    by (rule reset_reset [OF n])
  show ?thesis
    unfolding r
    by (simp add: reset_unfolded [OF n])
       (simp add: two_pending_def reject_events_def cancel_requests_def or_empty_def
          js_assign_def cancel_entry_def)
qed

text \<open>
  The guard decides this: were the nested call to run the transformation of the agent
  state instead of returning, the records would be canceled at its time 7.
\<close>

lemma reset_body_without_guard:
  "map_of (or_empty (completedRequests (agentState
      (reset_with (\<lambda>t s. updateAgentState (cancel_requests t) s) 9 two_pending)))) ''a''
     = Some (Completed
         \<lparr>tool = ''CodexBash'', arguments = JNull, createdAt = 5, completedAt = 7,
          status = status_canceled, reason = Some ''Session reset'', decision_c = None\<rparr>)"
  by (simp add: reset_with_def Let_def two_pending_def clearPendingWarning_def
      updateAgentState_def cancel_requests_def or_empty_def js_assign_def cancel_entry_def)

text \<open>
  The keys of the pending table are distinct in a new handler and stay so under every
  operation, as the keys of a \<^verbatim>\<open>Map\<close> are.
\<close>

lemma distinct_pending_new_handler: "distinct (map fst (pendingRequests (new_handler a)))"
  by (simp add: new_handler_def)

lemma distinct_pending_handleToolCall:
  assumes "distinct (map fst (pendingRequests s))"
  shows "distinct (map fst (pendingRequests (fst (handleToolCall now i name inp s))))"
proof (cases "shouldAutoApprove (currentPermissionMode s) name (normalizeRequestId i)")
  case True
  then show ?thesis
    using assms by (simp add: handleToolCall_auto Let_def)
next
  case False
  then show ?thesis
    using assms by (simp add: handleToolCall_pending Let_def distinct_update)
qed

lemma distinct_pending_permission_handler:
  assumes "distinct (map fst (pendingRequests s))"
  shows "distinct (map fst (pendingRequests (permission_handler now response s)))"
proof (cases "map_of (pendingRequests s) (normalizeRequestId (id_r response))")
  case None
  then show ?thesis
    using assms by (simp add: permission_handler_not_found)
next
  case (Some p)
  then show ?thesis
    using assms by (simp add: permission_handler_found Let_def distinct_delete)
qed

lemma distinct_pending_reset:
  assumes "distinct (map fst (pendingRequests s))"
  shows "distinct (map fst (pendingRequests (reset now s)))"
proof (cases "isResetting s")
  case True
  then show ?thesis
    using assms by (simp add: reset_guard)
next
  case False
  then show ?thesis
    by (simp add: reset_unfolded)
qed

lemma proto_pending_state:
  "proto_pending =
     \<lparr>pendingRequests =
        [(''__proto__'', \<lparr>toolName = ''CodexBash'', input = ls_input, reject = (\<lambda>_. Returns)\<rparr>),
         (''exec-1'', \<lparr>toolName = ''CodexBash'', input = ls_input, reject = (\<lambda>_. Returns)\<rparr>)],
      pendingWarningTimers = [(''__proto__'', ''CodexBash''), (''exec-1'', ''CodexBash'')],
      isResetting = False,
      currentPermissionMode = mode_default,
      agentState =
        \<lparr>requests = Some
           [(''__proto__'', \<lparr>tool = ''CodexBash'', arguments = ls_input, createdAt = 5\<rparr>),
            (''exec-1'', \<lparr>tool = ''CodexBash'', arguments = ls_input, createdAt = 6\<rparr>)],
         completedRequests = None\<rparr>,
      effects = []\<rparr>"
proof -
  let ?s0 = "new_handler test_session :: unit handler_state"
  let ?s1 = "fst (handleToolCall 5 (IdString ''__proto__'') ''CodexBash'' ls_input ?s0)"
  have na0: "\<not> shouldAutoApprove (currentPermissionMode ?s0) ''CodexBash''
               (normalizeRequestId (IdString ''__proto__''))"
    by (simp add: new_handler_def normalizeRequestId_def not_auto_CodexBash_proto)
  have s1: "?s1 =
     \<lparr>pendingRequests =
        [(''__proto__'', \<lparr>toolName = ''CodexBash'', input = ls_input, reject = (\<lambda>_. Returns)\<rparr>)],
      pendingWarningTimers = [(''__proto__'', ''CodexBash'')],
      isResetting = False,
      currentPermissionMode = mode_default,
      agentState =
        \<lparr>requests = Some
           [(''__proto__'', \<lparr>tool = ''CodexBash'', arguments = ls_input, createdAt = 5\<rparr>)],
         completedRequests = None\<rparr>,
      effects = []\<rparr>"
    unfolding handleToolCall_pending [OF na0]
    by (simp add: Let_def normalizeRequestId_def new_handler_def test_session_def or_empty_def)
  have na1: "\<not> shouldAutoApprove (currentPermissionMode ?s1) ''CodexBash''
               (normalizeRequestId (IdString ''exec-1''))"
    by (simp add: s1 normalizeRequestId_def not_auto_CodexBash_exec1)
  show ?thesis
    unfolding proto_pending_def handleToolCall_pending [OF na1]
    by (simp add: s1 Let_def normalizeRequestId_def or_empty_def)
qed

text \<open>
  Claim C3. The claim has every request recorded in the agent state end with the status
  \<open>canceled\<close>. With the requests \<open>__proto__\<close> and \<open>exec-1\<close> in flight, \<^verbatim>\<open>reset\<close> rejects
  both and empties the map of requests, and \<open>exec-1\<close> ends canceled; but the assignment
  \<^verbatim>\<open>completedRequests['__proto__'] = ...\<close> sets the prototype of the map instead of
  writing a property, so that the request \<open>__proto__\<close> is in neither map afterwards.
\<close>

theorem reset_loses_proto_request:
  "map_of (or_empty (requests (agentState proto_pending))) ''__proto__''
     = Some \<lparr>tool = ''CodexBash'', arguments = ls_input, createdAt = 5\<rparr>
   \<and> effects (reset 9 proto_pending)
     = [RejectCalled ''__proto__'' ''Session reset'', RejectCalled ''exec-1'' ''Session reset'']
   \<and> requests (agentState (reset 9 proto_pending)) = Some []
   \<and> map_of (or_empty (completedRequests (agentState (reset 9 proto_pending)))) ''exec-1''
     = Some (Completed
         \<lparr>tool = ''CodexBash'', arguments = ls_input, createdAt = 6, completedAt = 9,
          status = status_canceled, reason = Some ''Session reset'', decision_c = None\<rparr>)
   \<and> map_of (or_empty (completedRequests (agentState (reset 9 proto_pending)))) ''__proto__''
     = None"
proof -
  have n: "\<not> isResetting proto_pending"
    by (simp add: proto_pending_state)
  show ?thesis
    by (simp add: reset_unfolded [OF n])
       (simp add: proto_pending_state reject_events_def cancel_requests_def or_empty_def
          js_assign_def cancel_entry_def)
qed

subsection \<open>The restart after an abort\<close>

lemma applyAbortRestart_world:
  "fst (applyAbortRestart msg state callbacks w) =
     keepAlive callbacks False ''remote''
       (resetDiff callbacks
         (abortReasoning callbacks
           (resetPermissions callbacks
             (clearSession callbacks
               (addStatus callbacks ''Starting new Codex session (after abort)...''
                 (addStatus callbacks status_rule w))))))"
  by (simp add: applyAbortRestart_def Let_def)

text \<open>
  Claim C4, amended. For every message, state and earlier trace, \<^verbatim>\<open>applyAbortRestart\<close>
  calls \<^verbatim>\<open>addStatus\<close> twice, first with the rule and then with the line that announces
  the new session, and then calls \<^verbatim>\<open>clearSession\<close>, \<^verbatim>\<open>resetPermissions\<close>,
  \<^verbatim>\<open>abortReasoning\<close>, \<^verbatim>\<open>resetDiff\<close> and \<^verbatim>\<open>keepAlive(false, 'remote')\<close> once each, in this
  order and whatever the state is. It returns the message it was given as the pending
  one, with \<open>wasCreated\<close> false, no mode hash and \<open>thinking\<close> false.
\<close>

theorem applyAbortRestart_calls:
  "applyAbortRestart msg state recording_callbacks trace =
     (trace @ [AddStatus status_rule,
               AddStatus ''Starting new Codex session (after abort)...'',
               ClearSession, ResetPermissions, AbortReasoning, ResetDiff,
               KeepAlive False ''remote''],
      \<lparr>wasCreated = False, currentModeHash = None, thinking = False, pending = msg\<rparr>)"
  by (simp add: applyAbortRestart_def recording_callbacks_def Let_def)

text \<open>
  The claim as it was stated has six calls, the status line once and last. At the input
  of the test the trace has seven calls, two of them of \<^verbatim>\<open>addStatus\<close>, which come first;
  the last call is \<^verbatim>\<open>keepAlive\<close>.
\<close>

theorem applyAbortRestart_six_calls_counterexample:
  "length (fst (applyAbortRestart hello_message old_state recording_callbacks [])) = 7
   \<and> length (filter is_AddStatus
        (fst (applyAbortRestart hello_message old_state recording_callbacks []))) = 2
   \<and> is_AddStatus (hd (fst (applyAbortRestart hello_message old_state recording_callbacks [])))
   \<and> last (fst (applyAbortRestart hello_message old_state recording_callbacks []))
       = KeepAlive False ''remote''"
  by (simp add: applyAbortRestart_def recording_callbacks_def Let_def is_AddStatus_def)

subsection \<open>The subcommand of the MCP server\<close>

lemma buildCodexMcpCommand_appends:
  "command_of (buildCodexMcpCommand runner) = command_of runner
   \<and> args (buildCodexMcpCommand runner) = args runner @ [''mcp-server'']"
  by (simp add: buildCodexMcpCommand_def CODEX_MCP_SUBCOMMAND_def)

lemma getCodexMcpCommand_0_42_0: "getCodexMcpCommand (Some ''codex-cli 0.42.0'') = Some ''mcp''"
  by code_simp

lemma getCodexMcpCommand_0_92_0:
  "getCodexMcpCommand (Some ''codex-cli 0.92.0'') = Some ''mcp-server''"
  by code_simp

text \<open>
  Claim C9. \<^verbatim>\<open>buildCodexMcpCommand\<close> appends the one subcommand \<open>mcp-server\<close> to the
  arguments of the runner (lemma \<open>buildCodexMcpCommand_appends\<close>), and the claim has it
  as the only place where the subcommand is chosen. The \<^verbatim>\<open>connect\<close> of the client in the
  sources does not go through it: it takes the subcommand from the version that Codex
  reports. For a Codex that reports 0.42.0 it starts \<open>codex mcp\<close>, where the command
  built from the default runner is \<open>codex mcp-server\<close>; and at the input of the client's
  own test, the runner of the package \<open>@openai/codex@latest\<close> with the version 0.92.0, it
  starts \<open>codex mcp-server\<close>, where the command built from the runner is
  \<open>npx -y @openai/codex@latest mcp-server\<close>.
\<close>

theorem connect_transport_sniffs_version:
  "connect_transport (Some ''codex-cli 0.42.0'')
     = Inr \<lparr>command_of = ''codex'', args = [''mcp'']\<rparr>
   \<and> buildCodexMcpCommand (buildCodexRunner None)
     = \<lparr>command_of = ''codex'', args = [''mcp-server'']\<rparr>
   \<and> connect_transport (Some ''codex-cli 0.92.0'')
     = Inr \<lparr>command_of = ''codex'', args = [''mcp-server'']\<rparr>
   \<and> buildCodexMcpCommand (buildCodexRunner (Some ''@openai/codex@latest''))
     = \<lparr>command_of = ''npx'', args = [''-y'', ''@openai/codex@latest'', ''mcp-server'']\<rparr>"
  by (simp add: connect_transport_def getCodexMcpCommand_0_42_0 getCodexMcpCommand_0_92_0
      buildCodexMcpCommand_def buildCodexRunner_def CODEX_MCP_SUBCOMMAND_def)

end
